theory Spec2Isabelle
  imports Complex_Main "HOL-Library.Signed_Division" "HOL-Library.Char_ord" "HOL-Library.List_Lexorder"
begin

section \<open>JavaScript values\<close>

text \<open>
  What a \<^verbatim>\<open>throw\<close> throws or a promise is rejected with. \<open>Nullish\<close> is \<^verbatim>\<open>undefined\<close> or
  \<^verbatim>\<open>null\<close>, the values on which reading a property throws a \<^verbatim>\<open>TypeError\<close>. \<open>Error m\<close> is
  any other value, an \<^verbatim>\<open>Error\<close> object as a rule; \<open>m\<close> is its \<^verbatim>\<open>message\<close>, \<open>None\<close> when the
  value has none.
\<close>

datatype js_error = Error "string option" | Nullish

text \<open>
  The \<^verbatim>\<open>TypeError\<close> of reading \<^verbatim>\<open>.message\<close> of \<^verbatim>\<open>undefined\<close> or \<^verbatim>\<open>null\<close>, and the
  \<^verbatim>\<open>RangeError\<close> of \<^verbatim>\<open>BigInt(x)\<close> for a number \<open>x\<close> that is not an integer. The wording of
  the messages is the engine's.
\<close>

definition TypeError :: js_error where
  "TypeError = Error (Some ''Cannot read properties of undefined'')"

definition RangeError :: js_error where
  "RangeError = Error (Some ''The number cannot be converted to a BigInt'')"

text \<open>
  The numbers of JavaScript, IEEE doubles, as far as they are needed here: those whose
  value is an integer, the two infinities and \<^verbatim>\<open>NaN\<close>. (\<open>-0\<close> is not kept apart from
  \<open>0\<close>: \<^verbatim>\<open>!x\<close>, \<^verbatim>\<open>x === 0\<close>, \<^verbatim>\<open>+\<close>, \<^verbatim>\<open>-\<close>, \<^verbatim>\<open>*\<close>, \<^verbatim>\<open>Math.ceil\<close> and \<^verbatim>\<open>BigInt\<close> agree on the
  two up to the sign of a zero result.) \<open>Int_number n\<close> is a number only when \<open>n\<close> is
  representable as a double; every operation below returns such values.
\<close>

datatype js_number = Int_number int | PosInfinity | NegInfinity | NaN

text \<open>The number of binary digits of a positive integer.\<close>

function bitLength :: "int \<Rightarrow> nat" where
  "bitLength a = (if a \<le> 0 then 0 else Suc (bitLength (a div 2)))"
  by pat_completeness auto
termination
  by (relation "measure nat") auto

declare bitLength.simps [simp del]

text \<open>
  The double nearest to an integer, ties to the even significand, as the arithmetic of
  numbers and the reading of a decimal numeral round: an integer below \<open>2^53\<close> in
  magnitude is a double; a larger one keeps its 53 leading binary digits, rounded; a
  result of \<open>2^1024\<close> or more is an infinity.
\<close>

definition round_to_double :: "int \<Rightarrow> js_number" where
  "round_to_double n =
     (let a = \<bar>n\<bar> in
      if a < 2 ^ 53 then Int_number n
      else
        let shift = bitLength a - 53;
            q = a div 2 ^ shift;
            r = a mod 2 ^ shift;
            half = 2 ^ (shift - 1);
            m = (if r > half \<or> (r = half \<and> odd q) then q + 1 else q) * 2 ^ shift
        in if m \<ge> 2 ^ 1024 then (if n < 0 then NegInfinity else PosInfinity)
           else Int_number (sgn n * m))"

text \<open>Unary minus, \<^verbatim>\<open>+\<close>, \<^verbatim>\<open>-\<close> and \<^verbatim>\<open>*\<close> on these numbers.\<close>

definition number_neg :: "js_number \<Rightarrow> js_number" where
  "number_neg x =
     (case x of Int_number a \<Rightarrow> Int_number (- a) | PosInfinity \<Rightarrow> NegInfinity
      | NegInfinity \<Rightarrow> PosInfinity | NaN \<Rightarrow> NaN)"

definition number_add :: "js_number \<Rightarrow> js_number \<Rightarrow> js_number" where
  "number_add x y =
     (case (x, y) of
        (Int_number a, Int_number b) \<Rightarrow> round_to_double (a + b)
      | (NaN, _) \<Rightarrow> NaN
      | (_, NaN) \<Rightarrow> NaN
      | (PosInfinity, NegInfinity) \<Rightarrow> NaN
      | (NegInfinity, PosInfinity) \<Rightarrow> NaN
      | (PosInfinity, _) \<Rightarrow> PosInfinity
      | (_, PosInfinity) \<Rightarrow> PosInfinity
      | (NegInfinity, _) \<Rightarrow> NegInfinity
      | (_, NegInfinity) \<Rightarrow> NegInfinity)"

definition number_sub :: "js_number \<Rightarrow> js_number \<Rightarrow> js_number" where
  "number_sub x y = number_add x (number_neg y)"

definition number_mul :: "js_number \<Rightarrow> js_number \<Rightarrow> js_number" where
  "number_mul x y =
     (case (x, y) of
        (Int_number a, Int_number b) \<Rightarrow> round_to_double (a * b)
      | (NaN, _) \<Rightarrow> NaN
      | (_, NaN) \<Rightarrow> NaN
      | (Int_number a, _) \<Rightarrow> (if a = 0 then NaN else if a > 0 then y else number_neg y)
      | (_, Int_number b) \<Rightarrow> (if b = 0 then NaN else if b > 0 then x else number_neg x)
      | (PosInfinity, _) \<Rightarrow> y
      | (NegInfinity, _) \<Rightarrow> number_neg y)"

text \<open>
  \<^verbatim>\<open>parseInt(s)\<close> for the decimal numeral \<open>s\<close> of an integer: the double nearest to it.
  (For a numeral of more than 20 digits the language leaves the last digits to the
  engine; this is the correctly rounded result.) \<^verbatim>\<open>BigInt(x)\<close> for a number \<open>x\<close> throws
  for the infinities and \<^verbatim>\<open>NaN\<close>.
\<close>

definition parseInt :: "int \<Rightarrow> js_number" where
  "parseInt s = round_to_double s"

definition BigInt_of_number :: "js_number \<Rightarrow> js_error + int" where
  "BigInt_of_number x = (case x of Int_number n \<Rightarrow> Inr n | _ \<Rightarrow> Inl RangeError)"

section \<open>Constant-product quote kernel (BabydogeSwap)\<close>

text \<open>
  JavaScript's \<^verbatim>\<open>/\<close> on BigInt values truncates the quotient towards zero, whereas
  \<open>div\<close> on \<open>int\<close> rounds towards minus infinity. \<open>sdiv\<close> is the truncating
  quotient. The source divides only after it has excluded a zero divisor, so the
  RangeError of a BigInt division by zero is never reached.
\<close>

definition BigInt_div :: "int \<Rightarrow> int \<Rightarrow> int" where
  "BigInt_div n d = n sdiv d"

text \<open>\<^verbatim>\<open>const RESERVE_LIMIT = 2n ** 112n - 1n;\<close> and the field \<^verbatim>\<open>feeFactor = 10000\<close>.\<close>

definition RESERVE_LIMIT :: int where
  "RESERVE_LIMIT = 2 ^ 112 - 1"

definition feeFactor :: int where
  "feeFactor = 10000"

text \<open>
  \<^verbatim>\<open>BabydogeSwapPoolOrderedParams\<close>. The source keeps \<^verbatim>\<open>reservesIn\<close>, \<^verbatim>\<open>reservesOut\<close> and
  \<^verbatim>\<open>fee\<close> as decimal strings (\<^verbatim>\<open>toString()\<close> of a decoded uint256 and of the numeric
  \<^verbatim>\<open>feeCode\<close>) and reads them back with \<^verbatim>\<open>BigInt(...)\<close> and \<^verbatim>\<open>parseInt(...)\<close>; a field
  here is the integer its string denotes. \<^verbatim>\<open>BigInt(fee)\<close> is that integer;
  \<^verbatim>\<open>parseInt(fee)\<close> is a number, the double nearest to it. The \<^verbatim>\<open>exchange\<close> field of the
  source is \<open>pairExchange\<close>, since a quote has an \<^verbatim>\<open>exchange\<close> field of its own.
\<close>

record BabydogeSwapPoolOrderedParams =
  tokenIn :: string
  tokenOut :: string
  reservesIn :: int
  reservesOut :: int
  fee :: int
  direction :: bool
  pairExchange :: string

text \<open>\<^verbatim>\<open>BabydogeSwap.getBuyPrice(priceParams, destAmount)\<close>\<close>

definition getBuyPrice :: "BabydogeSwapPoolOrderedParams \<Rightarrow> int \<Rightarrow> int" where
  "getBuyPrice priceParams destAmount =
     (let numerator = reservesIn priceParams * destAmount * feeFactor;
          denominator = (feeFactor - fee priceParams) * (reservesOut priceParams - destAmount)
      in if denominator \<le> 0 then 0
         else if numerator = 0 then 0 else 1 + BigInt_div numerator denominator)"

text \<open>
  \<^verbatim>\<open>BabydogeSwap.getSellPrice(priceParams, srcAmount)\<close>. The fee is subtracted in the
  arithmetic of numbers, \<^verbatim>\<open>BigInt(this.feeFactor - parseInt(fee))\<close>; when the difference is
  an infinity \<^verbatim>\<open>BigInt\<close> throws and the promise is rejected (\<open>Inl\<close>).
\<close>

definition getSellPrice :: "BabydogeSwapPoolOrderedParams \<Rightarrow> int \<Rightarrow> js_error + int" where
  "getSellPrice priceParams srcAmount =
     (if reservesIn priceParams + srcAmount > RESERVE_LIMIT then Inr 0
      else
        case BigInt_of_number (number_sub (Int_number feeFactor) (parseInt (fee priceParams))) of
          Inl e \<Rightarrow> Inl e
        | Inr feeComplement \<Rightarrow>
            let amountInWithFee = srcAmount * feeComplement;
                numerator = amountInWithFee * reservesOut priceParams;
                denominator = reservesIn priceParams * feeFactor + amountInWithFee
            in Inr (if denominator = 0 then 0 else BigInt_div numerator denominator))"

text \<open>
  \<^verbatim>\<open>getBuyPricePath\<close> walks the hops from the last to the first
  (\<^verbatim>\<open>params.reverse()\<close>), \<^verbatim>\<open>getSellPricePath\<close> from the first to the last; a hop whose
  \<^verbatim>\<open>getSellPrice\<close> is rejected rejects the path.
\<close>

definition getBuyPricePath :: "int \<Rightarrow> BabydogeSwapPoolOrderedParams list \<Rightarrow> int" where
  "getBuyPricePath amount params = fold getBuyPrice (rev params) amount"

fun getSellPricePath :: "int \<Rightarrow> BabydogeSwapPoolOrderedParams list \<Rightarrow> js_error + int" where
  "getSellPricePath amount [] = Inr amount"
| "getSellPricePath amount (param # params) =
     (case getSellPrice param amount of
        Inl e \<Rightarrow> Inl e
      | Inr price \<Rightarrow> getSellPricePath price params)"

text \<open>The pool a quote is computed on, as the spec's \<open>getAmountOut\<close>/\<open>getAmountIn\<close> name it.\<close>

definition pool :: "int \<Rightarrow> int \<Rightarrow> int \<Rightarrow> BabydogeSwapPoolOrderedParams" where
  "pool r_in r_out f =
     \<lparr>tokenIn = [], tokenOut = [], reservesIn = r_in, reservesOut = r_out, fee = f,
      direction = True, pairExchange = []\<rparr>"


text \<open>
  The quote formulas in the spec's words, with the floor quotient \<open>div\<close>: the
  definitions the source's functions are compared with.
\<close>

definition getAmountOut_spec :: "int \<Rightarrow> int \<Rightarrow> int \<Rightarrow> int \<Rightarrow> int" where
  "getAmountOut_spec x r_in r_out f =
     (if r_in + x > 2 ^ 112 - 1 then 0
      else if r_in * 10000 + x * (10000 - f) = 0 then 0
      else (x * (10000 - f) * r_out) div (r_in * 10000 + x * (10000 - f)))"

definition getAmountIn_spec :: "int \<Rightarrow> int \<Rightarrow> int \<Rightarrow> int \<Rightarrow> int" where
  "getAmountIn_spec y r_in r_out f =
     (if (10000 - f) * (r_out - y) \<le> 0 \<or> r_in * y * 10000 = 0 then 0
      else 1 + (r_in * y * 10000) div ((10000 - f) * (r_out - y)))"


section \<open>Tokens, quotes and envelopes\<close>

datatype SwapSide = SELL | BUY

record Token =
  address :: string
  decimals :: nat

record TransferFeeParams =
  srcFee :: int
  destFee :: int
  srcDexFee :: int
  destDexFee :: int

text \<open>
  Gas costs are numbers, and need not be integers. Their type is a parameter \<open>'n\<close>
  here, and the operations the coordinator applies to them are passed in a record, so
  that nothing is assumed about rounding, \<^verbatim>\<open>NaN\<close> or the two zeros:
  \<open>num_falsy x\<close> is \<^verbatim>\<open>!x\<close>, \<open>num_is_zero x\<close> is \<^verbatim>\<open>x === 0\<close>, \<open>num_add\<close> is \<^verbatim>\<open>+\<close>,
  \<open>num_mul\<close> is \<^verbatim>\<open>*\<close> and \<open>Math_ceil\<close> is \<^verbatim>\<open>Math.ceil\<close>.
\<close>

record 'n number_ops =
  num_falsy :: "'n \<Rightarrow> bool"
  num_is_zero :: "'n \<Rightarrow> bool"
  num_add :: "'n \<Rightarrow> 'n \<Rightarrow> 'n"
  num_mul :: "'n \<Rightarrow> 'n \<Rightarrow> 'n"
  Math_ceil :: "'n \<Rightarrow> 'n"

text \<open>
  The operations on \<open>js_number\<close>, for gas costs and ratios whose values are integers:
  \<^verbatim>\<open>!x\<close> holds for \<open>0\<close> and \<^verbatim>\<open>NaN\<close>, and \<^verbatim>\<open>Math.ceil\<close> returns its argument.
\<close>

definition double_ops :: "js_number number_ops" where
  "double_ops =
     \<lparr>num_falsy = (\<lambda>x. x = Int_number 0 \<or> x = NaN), num_is_zero = (\<lambda>x. x = Int_number 0),
      num_add = number_add, num_mul = number_mul, Math_ceil = (\<lambda>x. x)\<rparr>"

text \<open>\<^verbatim>\<open>gasCost: number | number[]\<close>\<close>

datatype 'n gas_cost = Number 'n | Array "'n list"

text \<open>
  The venue payload \<^verbatim>\<open>data\<close>: \<^verbatim>\<open>null\<close> for SDai, the router data for BabydogeSwap, where
  the fee of a pool is a number, \<^verbatim>\<open>parseInt(pairParam.fee)\<close>.
\<close>

record BabydogeSwapPool =
  poolAddress :: string
  poolFee :: js_number
  poolDirection :: bool

datatype dex_data =
  Null_data
| BabydogeSwapData (router: string) (path: "string list") (factory: string)
    (dataFeeFactor: int) (pools: "BabydogeSwapPool list")

text \<open>
  \<^verbatim>\<open>PoolPrices<D>\<close>. An optional field of the source (\<^verbatim>\<open>gasCostL2\<close>, \<^verbatim>\<open>poolIdentifier\<close>,
  \<^verbatim>\<open>poolAddresses\<close>) is an \<open>option\<close>, \<open>None\<close> when the field is absent.
\<close>

record 'n PoolPrices =
  prices :: "int list"
  unit :: int
  gasCost :: "'n gas_cost"
  gasCostL2 :: "'n gas_cost option"
  exchange :: string
  poolIdentifier :: "string option"
  poolAddresses :: "string list option"
  data :: dex_data

text \<open>
  \<^verbatim>\<open>ImprovedPoolPrice<D> = {dexKey, poolId, prices: PoolPrices<D> | null}\<close>. The field
  \<^verbatim>\<open>prices\<close> of the envelope is \<open>pricesOrNull\<close> here, the name \<open>prices\<close> being the quote's
  own sequence; \<open>None\<close> is \<^verbatim>\<open>null\<close>.
\<close>

record 'n ImprovedPoolPrice =
  dexKey :: string
  poolId :: string
  pricesOrNull :: "'n PoolPrices option"

text \<open>
  \<^verbatim>\<open>ExchangePrices<D> = PoolPrices<D>[]\<close>, the array an adapter's \<^verbatim>\<open>getPricesVolume\<close> is
  fulfilled with. The coordinator assigns into the quote objects of this array, so the
  array is kept with the identity of its objects: \<open>elements\<close> are the references the
  array holds, in order, and \<open>objects\<close> is what each referenced object holds. Two
  positions with the same reference hold the same object. \<open>quotesOf\<close> reads the array;
  \<open>fresh qs\<close> is an array literal of new objects, one for each quote of \<open>qs\<close>.
\<close>

record 'n ExchangePrices =
  objects :: "nat \<Rightarrow> 'n PoolPrices"
  elements :: "nat list"

definition quotesOf :: "'n ExchangePrices \<Rightarrow> 'n PoolPrices list" where
  "quotesOf poolPrices = map (objects poolPrices) (elements poolPrices)"

definition fresh :: "'n PoolPrices list \<Rightarrow> 'n ExchangePrices" where
  "fresh qs = \<lparr>objects = (\<lambda>r. qs ! r), elements = [0..<length qs]\<rparr>"

text \<open>
  What an adapter's promise has done when the coordinator's deadline expires: fulfilled
  with a value, rejected with an error (a synchronous throw of the adapter inside the
  promise executor rejects the promise as well), or still pending.
\<close>

datatype 'a settle = Fulfilled 'a | Rejected js_error | Pending

text \<open>The part of the adapter contract \<^verbatim>\<open>IDex\<close> that the coordinator calls.\<close>

record 'n IDex =
  hasConstantPriceLargeAmounts :: bool
  isFeeOnTransferSupported :: bool
  getPoolIdentifiers :: "Token \<Rightarrow> Token \<Rightarrow> SwapSide \<Rightarrow> nat \<Rightarrow> string list settle"
  getPricesVolume :: "Token \<Rightarrow> Token \<Rightarrow> int list \<Rightarrow> SwapSide \<Rightarrow> nat \<Rightarrow> string list option
                      \<Rightarrow> TransferFeeParams \<Rightarrow> 'n ExchangePrices option settle"
  getCalldataGasCost :: "'n PoolPrices \<Rightarrow> js_error + 'n gas_cost"

text \<open>
  Modelled from the spec: \<^verbatim>\<open>toImprovedPoolPrices\<close> of \<^verbatim>\<open>./types\<close> is not among the
  sources. The spec (4.7): if \<open>pps\<close> is null or empty, the result is
  \<open>[{dexKey, poolId: "", prices: null}]\<close>; else one envelope per pool, with
  \<open>poolId = pp.poolIdentifier ?? ""\<close> and \<open>prices = pp\<close>.
\<close>

definition toImprovedPoolPrices ::
  "string \<Rightarrow> 'n PoolPrices list option \<Rightarrow> 'n ImprovedPoolPrice list" where
  "toImprovedPoolPrices key pps =
     (case pps of
        None \<Rightarrow> [\<lparr>dexKey = key, poolId = [], pricesOrNull = None\<rparr>]
      | Some [] \<Rightarrow> [\<lparr>dexKey = key, poolId = [], pricesOrNull = None\<rparr>]
      | Some ps \<Rightarrow>
          map (\<lambda>pp. \<lparr>dexKey = key,
                      poolId = (case poolIdentifier pp of None \<Rightarrow> [] | Some i \<Rightarrow> i),
                      pricesOrNull = Some pp\<rparr>) ps)"

text \<open>
  Modelled from the spec: \<^verbatim>\<open>isSrcTokenTransferFeeToBeExchanged\<close> of \<^verbatim>\<open>./utils\<close> is not among
  the sources. The spec (3): a source-side transfer fee is in play when \<open>srcFee > 0\<close> or
  \<open>srcDexFee > 0\<close>.
\<close>

definition isSrcTokenTransferFeeToBeExchanged :: "TransferFeeParams \<Rightarrow> bool" where
  "isSrcTokenTransferFeeToBeExchanged transferFees =
     (srcFee transferFees > 0 \<or> srcDexFee transferFees > 0)"

section \<open>The pricing coordinator (PricingHelper)\<close>

text \<open>
  \<^verbatim>\<open>Array.prototype.map\<close> with a callback that may throw: the first throw ends the
  map. \<^verbatim>\<open>Promise.all\<close> rejects with the first rejection and is fulfilled with all the
  values otherwise.
\<close>

fun mapE :: "('a \<Rightarrow> 'e + 'b) \<Rightarrow> 'a list \<Rightarrow> 'e + 'b list" where
  "mapE f [] = Inr []"
| "mapE f (x # xs) =
     (case f x of
        Inl e \<Rightarrow> Inl e
      | Inr y \<Rightarrow> map_sum (\<lambda>e. e) (\<lambda>ys. y # ys) (mapE f xs))"

definition Promise_all :: "('e + 'a) list \<Rightarrow> 'e + 'a list" where
  "Promise_all ps = mapE (\<lambda>p. p) ps"

text \<open>\<^verbatim>\<open>reject(new Error(`Timeout`))\<close>, what the timer of either operation does.\<close>

definition Timeout :: js_error where
  "Timeout = Error (Some ''Timeout'')"

subsection \<open>getPoolIdentifiers\<close>

text \<open>
  The promise built for one key. \<open>getDexByKey\<close> is
  \<^verbatim>\<open>this.dexAdapterService.getDexByKey\<close>, which throws for a key it does not know.
  \<open>None\<close> is the \<^verbatim>\<open>null\<close> of \<^verbatim>\<open>resolve(null)\<close>.
\<close>

definition fetchPoolIdentifiers ::
  "(string \<Rightarrow> js_error + 'n IDex) \<Rightarrow> Token \<Rightarrow> Token \<Rightarrow> SwapSide \<Rightarrow> nat \<Rightarrow> bool \<Rightarrow> string
   \<Rightarrow> js_error + string list option" where
  "fetchPoolIdentifiers getDexByKey from to side blockNumber filterConstantPricePool key =
     (case getDexByKey key of
        Inl e \<Rightarrow> Inl e
      | Inr dexInstance \<Rightarrow>
          if filterConstantPricePool \<and> hasConstantPriceLargeAmounts dexInstance then Inr None
          else (case getPoolIdentifiers dexInstance from to side blockNumber of
                  Fulfilled ids \<Rightarrow> Inr (Some ids)
                | Rejected e \<Rightarrow> Inl e
                | Pending \<Rightarrow> Inl Timeout))"

text \<open>The \<^verbatim>\<open>async key => { try { return await ... } catch (e) { ...; return []; } }\<close>\<close>

definition poolIdentifiersOfKey ::
  "(string \<Rightarrow> js_error + 'n IDex) \<Rightarrow> Token \<Rightarrow> Token \<Rightarrow> SwapSide \<Rightarrow> nat \<Rightarrow> bool \<Rightarrow> string
   \<Rightarrow> js_error + string list option" where
  "poolIdentifiersOfKey getDexByKey from to side blockNumber filterConstantPricePool key =
     (case fetchPoolIdentifiers getDexByKey from to side blockNumber filterConstantPricePool key of
        Inl e \<Rightarrow> Inr (Some [])
      | Inr v \<Rightarrow> Inr v)"

text \<open>
  \<^verbatim>\<open>PricingHelper.getPoolIdentifiers\<close>. The result object is a map from keys to entries;
  an entry \<open>None\<close> is \<^verbatim>\<open>null\<close>. The \<^verbatim>\<open>reduce\<close> stores \<^verbatim>\<open>poolIdentifiers[index]\<close> under each
  key, from the first key to the last.
\<close>

definition PricingHelper_getPoolIdentifiers ::
  "(string \<Rightarrow> js_error + 'n IDex) \<Rightarrow> Token \<Rightarrow> Token \<Rightarrow> SwapSide \<Rightarrow> nat \<Rightarrow> string list \<Rightarrow> bool
   \<Rightarrow> js_error + (string \<rightharpoonup> string list option)" where
  "PricingHelper_getPoolIdentifiers getDexByKey from to side blockNumber dexKeys
       filterConstantPricePool =
     (case Promise_all (map (poolIdentifiersOfKey getDexByKey from to side blockNumber
                               filterConstantPricePool) dexKeys) of
        Inl e \<Rightarrow> Inl e
      | Inr poolIdentifiers \<Rightarrow>
          Inr (fold (\<lambda>(index, dexKey) acc. acc(dexKey \<mapsto> poolIdentifiers ! index))
                 (enumerate 0 dexKeys) Map.empty))"

subsection \<open>getPoolPrices\<close>

text \<open>
  A loop whose body changes a state and may throw: the first throw ends the loop.
\<close>

fun foldE :: "('a \<Rightarrow> 's \<Rightarrow> 'e + 's) \<Rightarrow> 'a list \<Rightarrow> 's \<Rightarrow> 'e + 's" where
  "foldE f [] s = Inr s"
| "foldE f (x # xs) s = (case f x s of Inl e \<Rightarrow> Inl e | Inr s' \<Rightarrow> foldE f xs s')"

text \<open>
  The callback of \<^verbatim>\<open>improvedPrices.map\<close> for an envelope that holds the quote object
  \<open>r\<close>: the rollup overlay, assigned into that object. \<open>objs\<close> is what the objects hold
  before the call, the result what they hold after it. \<^verbatim>\<open>getCalldataGasCost\<close> is called
  on the object after \<^verbatim>\<open>gasCostL2\<close> has been assigned; it reads the quote it is given and
  returns a cost or throws, as the adapters of the sources do, which return a constant.
\<close>

definition applyRollupGas ::
  "'n number_ops \<Rightarrow> 'n \<Rightarrow> 'n IDex \<Rightarrow> string \<Rightarrow> nat \<Rightarrow> (nat \<Rightarrow> 'n PoolPrices)
   \<Rightarrow> js_error + (nat \<Rightarrow> 'n PoolPrices)" where
  "applyRollupGas J rollupL1ToL2GasRatio dexInstance key r objs =
     (let q2 = (objs r)\<lparr>gasCostL2 := Some (gasCost (objs r))\<rparr> in
      case getCalldataGasCost dexInstance q2 of
        Inl e \<Rightarrow> Inl e
      | Inr gasCostL1 \<Rightarrow>
          (case (gasCost q2, gasCostL1) of
             (Number g, Number l1) \<Rightarrow>
               Inr (objs(r := q2\<lparr>gasCost :=
                 Number (num_add J g (Math_ceil J (num_mul J rollupL1ToL2GasRatio l1)))\<rparr>))
           | (Array gs, Array l1s) \<Rightarrow>
               if length gs \<noteq> length l1s
               then Inl (Error (Some (''getCalldataGasCost returned wrong array length in dex ''
                                       @ key)))
               else Inr (objs(r := q2\<lparr>gasCost :=
                 Array (map (\<lambda>(i, g). num_add J g
                               (Math_ceil J (num_mul J rollupL1ToL2GasRatio (l1s ! i))))
                          (enumerate 0 gs))\<rparr>))
           | _ \<Rightarrow>
               Inl (Error (Some (''getCalldataGasCost returned wrong type in dex '' @ key)))))"

text \<open>
  \<^verbatim>\<open>improvedPrices.map(pp => { ... })\<close> inside its \<^verbatim>\<open>try\<close>. An envelope whose \<^verbatim>\<open>prices\<close>
  is null is returned as it is; these are the envelopes that \<^verbatim>\<open>toImprovedPoolPrices\<close>
  makes of \<^verbatim>\<open>null\<close> and of the empty array. Otherwise the envelopes hold the elements
  of the adapter's array, in order (\<open>prices = pp\<close>); the callback assigns into the object
  an envelope holds, and the envelopes returned hold what their objects hold when the
  map has ended.
\<close>

definition rollupImprovedPrices ::
  "'n number_ops \<Rightarrow> 'n \<Rightarrow> 'n IDex \<Rightarrow> string \<Rightarrow> 'n ExchangePrices option
   \<Rightarrow> 'n ImprovedPoolPrice list \<Rightarrow> js_error + 'n ImprovedPoolPrice list" where
  "rollupImprovedPrices J rollupL1ToL2GasRatio dexInstance key poolPrices improvedPrices =
     (case poolPrices of
        None \<Rightarrow> Inr improvedPrices
      | Some ep \<Rightarrow>
          if elements ep = [] then Inr improvedPrices
          else (case foldE (applyRollupGas J rollupL1ToL2GasRatio dexInstance key)
                       (elements ep) (objects ep) of
                  Inl e \<Rightarrow> Inl e
                | Inr objs \<Rightarrow>
                    Inr (map (\<lambda>(pp, r). pp\<lparr>pricesOrNull := Some (objs r)\<rparr>)
                           (zip improvedPrices (elements ep)))))"

text \<open>
  The promise built for one key, after the \<^verbatim>\<open>limitPools\<close> guard. A missing
  \<^verbatim>\<open>rollupL1ToL2GasRatio\<close> is \<open>None\<close>; \<^verbatim>\<open>!rollupL1ToL2GasRatio\<close> holds for a missing ratio and
  for a falsy number.
\<close>

definition fetchPoolPrices ::
  "'n number_ops \<Rightarrow> (string \<Rightarrow> js_error + 'n IDex) \<Rightarrow> Token \<Rightarrow> Token \<Rightarrow> int list \<Rightarrow> SwapSide
   \<Rightarrow> nat \<Rightarrow> string list option \<Rightarrow> TransferFeeParams \<Rightarrow> 'n option \<Rightarrow> string
   \<Rightarrow> js_error + 'n ImprovedPoolPrice list" where
  "fetchPoolPrices J getDexByKey from to amounts side blockNumber limitPools transferFees
       rollupL1ToL2GasRatio key =
     (case getDexByKey key of
        Inl e \<Rightarrow> Inl e
      | Inr dexInstance \<Rightarrow>
          if isSrcTokenTransferFeeToBeExchanged transferFees
             \<and> \<not> isFeeOnTransferSupported dexInstance
          then Inr [\<lparr>dexKey = key, poolId = ''isSrcTokenTransferFeeToBeExchanged_pool'',
                     pricesOrNull = None\<rparr>]
          else (case getPricesVolume dexInstance from to amounts side blockNumber limitPools
                       transferFees of
                  Pending \<Rightarrow> Inl Timeout
                | Rejected e \<Rightarrow> Inl e
                | Fulfilled poolPrices \<Rightarrow>
                    let improvedPrices =
                          toImprovedPoolPrices key (map_option quotesOf poolPrices)
                    in
                    (case rollupL1ToL2GasRatio of
                       None \<Rightarrow> Inr improvedPrices
                     | Some ratio \<Rightarrow>
                         if num_falsy J ratio then Inr improvedPrices
                         else rollupImprovedPrices J ratio dexInstance key poolPrices
                                improvedPrices)))"

text \<open>
  The \<^verbatim>\<open>async key => { try { ... } catch (e) { ... } }\<close> of \<^verbatim>\<open>getPoolPrices\<close>.
  \<open>limitPoolsMap\<close> is \<^verbatim>\<open>{[key]: string[] | null} | null\<close>; a key that is absent and a key
  mapped to \<^verbatim>\<open>null\<close> are both \<open>None\<close>. An empty \<^verbatim>\<open>limitPools\<close> returns \<open>[]\<close> before any
  adapter is asked. The \<^verbatim>\<open>catch\<close> reads \<^verbatim>\<open>e.message\<close>: for a rejection with \<^verbatim>\<open>undefined\<close> or
  \<^verbatim>\<open>null\<close> this throws, and the function is rejected itself.
\<close>

definition poolPricesOfKey ::
  "'n number_ops \<Rightarrow> (string \<Rightarrow> js_error + 'n IDex) \<Rightarrow> Token \<Rightarrow> Token \<Rightarrow> int list \<Rightarrow> SwapSide
   \<Rightarrow> nat \<Rightarrow> (string \<rightharpoonup> string list) option \<Rightarrow> TransferFeeParams \<Rightarrow> 'n option \<Rightarrow> string
   \<Rightarrow> js_error + 'n ImprovedPoolPrice list" where
  "poolPricesOfKey J getDexByKey from to amounts side blockNumber limitPoolsMap transferFees
       rollupL1ToL2GasRatio key =
     (let limitPools = (case limitPoolsMap of None \<Rightarrow> None | Some m \<Rightarrow> m key) in
      if limitPools = Some [] then Inr []
      else (case fetchPoolPrices J getDexByKey from to amounts side blockNumber limitPools
                   transferFees rollupL1ToL2GasRatio key of
              Inr improvedPrices \<Rightarrow> Inr improvedPrices
            | Inl e \<Rightarrow>
                (case e of
                   Nullish \<Rightarrow> Inl TypeError
                 | Error m \<Rightarrow>
                     Inr [\<lparr>dexKey = key,
                           poolId = (case m of Some s \<Rightarrow> s | None \<Rightarrow> ''Error_getPoolPrices''),
                           pricesOrNull = None\<rparr>])))"

text \<open>
  The callback of the final \<^verbatim>\<open>filter\<close>. The \<^verbatim>\<open>for\<close> loop over \<^verbatim>\<open>amounts.entries()\<close> returns
  \<^verbatim>\<open>false\<close> at the first index whose amount is \<^verbatim>\<open>0n\<close> and whose gas cost is not \<^verbatim>\<open>0\<close>; it
  runs only after the lengths were found equal, so \<^verbatim>\<open>gasCost[i]\<close> is in range.
\<close>

definition isValidPoolPrice :: "'n number_ops \<Rightarrow> int list \<Rightarrow> 'n ImprovedPoolPrice \<Rightarrow> bool" where
  "isValidPoolPrice J amounts p =
     (case pricesOrNull p of
        None \<Rightarrow> True
      | Some q \<Rightarrow>
          if length (prices q) \<noteq> length amounts then False
          else if (case gasCost q of
                     Number g \<Rightarrow> False
                   | Array gs \<Rightarrow>
                       length gs \<noteq> length amounts
                       \<or> list_ex (\<lambda>(i, amount). amount = 0 \<and> \<not> num_is_zero J (gs ! i))
                            (enumerate 0 amounts))
          then False
          else if list_all (\<lambda>pi. pi = 0) (prices q) then False
          else True)"

text \<open>\<^verbatim>\<open>PricingHelper.getPoolPrices\<close>\<close>

definition PricingHelper_getPoolPrices ::
  "'n number_ops \<Rightarrow> (string \<Rightarrow> js_error + 'n IDex) \<Rightarrow> Token \<Rightarrow> Token \<Rightarrow> int list \<Rightarrow> SwapSide
   \<Rightarrow> nat \<Rightarrow> string list \<Rightarrow> (string \<rightharpoonup> string list) option \<Rightarrow> TransferFeeParams \<Rightarrow> 'n option
   \<Rightarrow> js_error + 'n ImprovedPoolPrice list" where
  "PricingHelper_getPoolPrices J getDexByKey from to amounts side blockNumber dexKeys
       limitPoolsMap transferFees rollupL1ToL2GasRatio =
     (case Promise_all (map (poolPricesOfKey J getDexByKey from to amounts side blockNumber
                               limitPoolsMap transferFees rollupL1ToL2GasRatio) dexKeys) of
        Inl e \<Rightarrow> Inl e
      | Inr dexPoolPrices \<Rightarrow> Inr (filter (isValidPoolPrice J amounts) (concat dexPoolPrices)))"



text \<open>
  The condition of the validation pass in the spec's words, for the quote \<open>q\<close> of an
  envelope whose \<^verbatim>\<open>prices\<close> is not null.
\<close>

definition keepsQuote_spec :: "'n number_ops \<Rightarrow> int list \<Rightarrow> 'n PoolPrices \<Rightarrow> bool" where
  "keepsQuote_spec J amounts q =
     (length (prices q) = length amounts
      \<and> (case gasCost q of
           Number g \<Rightarrow> True
         | Array gs \<Rightarrow>
             length gs = length amounts
             \<and> (\<forall>i < length amounts. amounts ! i = 0 \<longrightarrow> num_is_zero J (gs ! i)))
      \<and> \<not> (\<forall>pi \<in> set (prices q). pi = 0))"




section \<open>Adapters\<close>

text \<open>
  \<^verbatim>\<open>String.prototype.toLowerCase\<close> on the characters of an address: the letters \<open>A\<close> to
  \<open>Z\<close> are mapped to \<open>a\<close> to \<open>z\<close>, every other character is kept.
\<close>

definition toLowerCase_char :: "char \<Rightarrow> char" where
  "toLowerCase_char c =
     (let n = (of_char c :: nat) in if 65 \<le> n \<and> n \<le> 90 then char_of (n + 32) else c)"

definition toLowerCase :: "string \<Rightarrow> string" where
  "toLowerCase s = map toLowerCase_char s"

text \<open>The base class \<^verbatim>\<open>SimpleExchange\<close> holds the key of the venue, \<^verbatim>\<open>this.dexKey\<close>.\<close>

record SimpleExchange =
  this_dexKey :: string

subsection \<open>SDai\<close>

text \<open>
  Modelled from the spec: the table \<^verbatim>\<open>BI_POWS\<close> of \<^verbatim>\<open>bigint-constants\<close> is not among the
  sources; \<^verbatim>\<open>BI_POWS[n]\<close> is \<open>10^n\<close>, the quote for one whole unit of an 18-decimal token
  being \<open>10^18\<close>.
\<close>

definition BI_POWS :: "nat \<Rightarrow> int" where
  "BI_POWS n = 10 ^ n"

record SDai = SimpleExchange +
  sdaiAddress :: string
  daiAddress :: string
  unitPrice :: int

text \<open>
  The constructor with its defaults: \<^verbatim>\<open>sdaiAddress\<close> and \<^verbatim>\<open>daiAddress\<close> come from the
  configuration of the key, \<^verbatim>\<open>unitPrice = BI_POWS[18]\<close>.
\<close>

definition new_SDai :: "string \<Rightarrow> string \<Rightarrow> string \<Rightarrow> SDai" where
  "new_SDai key configSdaiAddress configDaiAddress =
     \<lparr>this_dexKey = key, sdaiAddress = configSdaiAddress, daiAddress = configDaiAddress,
      unitPrice = BI_POWS 18\<rparr>"

definition isSDai :: "SDai \<Rightarrow> string \<Rightarrow> bool" where
  "isSDai this tokenAddress = (toLowerCase (sdaiAddress this) = toLowerCase tokenAddress)"

definition isDai :: "SDai \<Rightarrow> string \<Rightarrow> bool" where
  "isDai this tokenAddress = (toLowerCase (daiAddress this) = toLowerCase tokenAddress)"

definition isAppropriatePair :: "SDai \<Rightarrow> Token \<Rightarrow> Token \<Rightarrow> bool" where
  "isAppropriatePair this srcToken destToken =
     ((isDai this (address srcToken) \<and> isSDai this (address destToken))
      \<or> (isDai this (address destToken) \<and> isSDai this (address srcToken)))"

definition SDai_getPoolIdentifiers ::
  "SDai \<Rightarrow> Token \<Rightarrow> Token \<Rightarrow> SwapSide \<Rightarrow> nat \<Rightarrow> string list" where
  "SDai_getPoolIdentifiers this srcToken destToken side blockNumber =
     (if isAppropriatePair this srcToken destToken
      then [this_dexKey this @ ''_'' @ address srcToken @ ''_'' @ address destToken]
      else [])"

text \<open>
  \<^verbatim>\<open>SDai.getPricesVolume\<close>; \<open>None\<close> is \<^verbatim>\<open>null\<close>. The constant \<^verbatim>\<open>SDAI_GAS_COST\<close> of
  \<^verbatim>\<open>./constants\<close> is not among the sources and is a parameter. The quote has no
  \<^verbatim>\<open>poolIdentifier\<close> and no \<^verbatim>\<open>gasCostL2\<close> field.
\<close>

definition SDai_getPricesVolume ::
  "'n \<Rightarrow> SDai \<Rightarrow> Token \<Rightarrow> Token \<Rightarrow> int list \<Rightarrow> SwapSide \<Rightarrow> nat \<Rightarrow> string list option
   \<Rightarrow> 'n PoolPrices list option" where
  "SDai_getPricesVolume SDAI_GAS_COST this srcToken destToken amounts side blockNumber limitPools =
     (if \<not> isAppropriatePair this srcToken destToken then None
      else Some [\<lparr>prices = amounts, unit = unitPrice this, gasCost = Number SDAI_GAS_COST,
                  gasCostL2 = None, exchange = this_dexKey this, poolIdentifier = None,
                  poolAddresses = Some [sdaiAddress this], data = Null_data\<rparr>])"

text \<open>
  The adapter as the coordinator sees it. Both methods are \<^verbatim>\<open>async\<close> functions without
  an \<^verbatim>\<open>await\<close>: their promises are fulfilled. The array of \<^verbatim>\<open>getPricesVolume\<close> is a
  literal, its quote a new object. \<^verbatim>\<open>getCalldataGasCost\<close> returns the constant
  \<^verbatim>\<open>CALLDATA_GAS_COST.DEX_NO_PAYLOAD\<close>, a parameter here.
\<close>

definition SDai_IDex :: "'n \<Rightarrow> 'n \<Rightarrow> SDai \<Rightarrow> 'n IDex" where
  "SDai_IDex SDAI_GAS_COST DEX_NO_PAYLOAD this =
     \<lparr>hasConstantPriceLargeAmounts = True,
      isFeeOnTransferSupported = False,
      getPoolIdentifiers = (\<lambda>srcToken destToken side blockNumber.
         Fulfilled (SDai_getPoolIdentifiers this srcToken destToken side blockNumber)),
      getPricesVolume = (\<lambda>srcToken destToken amounts side blockNumber limitPools transferFees.
         Fulfilled (map_option fresh
           (SDai_getPricesVolume SDAI_GAS_COST this srcToken destToken amounts side
              blockNumber limitPools))),
      getCalldataGasCost = (\<lambda>poolPrices. Inr (Number DEX_NO_PAYLOAD))\<rparr>"

subsection \<open>BabydogeSwap\<close>

text \<open>
  The instance. The parameters \<^verbatim>\<open>_from\<close> and \<^verbatim>\<open>_to\<close> of the source's methods are
  \<open>from_raw\<close> and \<open>to_raw\<close> below. \<open>wrapETH\<close> is \<^verbatim>\<open>this.dexHelper.config.wrapETH\<close>. Pool discovery and the
  event-backed pool state read the chain: \<open>pairOrderedParams from to blockNumber\<close> is
  what \<^verbatim>\<open>await this.batchCatchUpPairs([[from, to]], blockNumber)\<close> followed by
  \<^verbatim>\<open>await this.getPairOrderedParams(from, to, blockNumber)\<close> has done by the coordinator's
  deadline: fulfilled with the ordered parameters or \<^verbatim>\<open>null\<close>, rejected, or pending.
\<close>

record 'n BabydogeSwap = SimpleExchange +
  poolGasCost :: 'n
  thisRouter :: string
  factoryAddress :: string
  wrapETH :: "Token \<Rightarrow> Token"
  pairOrderedParams :: "Token \<Rightarrow> Token \<Rightarrow> nat \<Rightarrow> BabydogeSwapPoolOrderedParams option settle"

text \<open>
  Modelled from the spec: \<^verbatim>\<open>getBigIntPow\<close> of \<^verbatim>\<open>utils\<close> is not among the sources;
  \<^verbatim>\<open>getBigIntPow(d)\<close> is one whole unit of a token with \<open>d\<close> decimals, \<open>10^d\<close>.
\<close>

definition getBigIntPow :: "nat \<Rightarrow> int" where
  "getBigIntPow d = 10 ^ d"

text \<open>
  \<^verbatim>\<open>[a, b].sort((a, b) => (a > b ? 1 : -1)).join('_')\<close>: the two strings in ascending
  order, joined.
\<close>

definition sortedJoin :: "string \<Rightarrow> string \<Rightarrow> string" where
  "sortedJoin a b = (if b < a then b @ ''_'' @ a else a @ ''_'' @ b)"

definition BabydogeSwap_getPoolIdentifiers ::
  "'n BabydogeSwap \<Rightarrow> Token \<Rightarrow> Token \<Rightarrow> SwapSide \<Rightarrow> nat \<Rightarrow> string list" where
  "BabydogeSwap_getPoolIdentifiers this from_raw to_raw side blockNumber =
     (let from = wrapETH this from_raw; to = wrapETH this to_raw in
      if toLowerCase (address from) = toLowerCase (address to) then []
      else
        let tokenAddress = sortedJoin (toLowerCase (address from)) (toLowerCase (address to));
            poolIdentifier = this_dexKey this @ ''_'' @ tokenAddress
        in [poolIdentifier])"

text \<open>
  \<^verbatim>\<open>BabydogeSwap.getPricesVolume\<close>. Its body is one \<^verbatim>\<open>try\<close> whose \<^verbatim>\<open>catch\<close> returns
  \<^verbatim>\<open>null\<close>, so a rejection inside, of the pool lookup, of the unit quote or of one of the
  quotes under \<^verbatim>\<open>Promise.all\<close>, is a fulfilment with \<open>None\<close>.
\<close>

definition BabydogeSwap_getPricesVolume ::
  "'n BabydogeSwap \<Rightarrow> Token \<Rightarrow> Token \<Rightarrow> int list \<Rightarrow> SwapSide \<Rightarrow> nat \<Rightarrow> string list option
   \<Rightarrow> 'n PoolPrices list option settle" where
  "BabydogeSwap_getPricesVolume this from_raw to_raw amounts side blockNumber limitPools =
     (let from = wrapETH this from_raw; to = wrapETH this to_raw in
      if toLowerCase (address from) = toLowerCase (address to) then Fulfilled None
      else
        let tokenAddress = sortedJoin (toLowerCase (address from)) (toLowerCase (address to));
            poolIdentifier = this_dexKey this @ ''_'' @ tokenAddress
        in
        if (case limitPools of None \<Rightarrow> False
            | Some ps \<Rightarrow> list_all (\<lambda>p. p \<noteq> poolIdentifier) ps)
        then Fulfilled None
        else
          (case pairOrderedParams this from to blockNumber of
             Pending \<Rightarrow> Pending
           | Rejected e \<Rightarrow> Fulfilled None
           | Fulfilled None \<Rightarrow> Fulfilled None
           | Fulfilled (Some pairParam) \<Rightarrow>
               let unitAmount = getBigIntPow (if side = BUY then decimals to else decimals from);
                   unitQuote = (if side = BUY then Inr (getBuyPricePath unitAmount [pairParam])
                                else getSellPricePath unitAmount [pairParam])
               in
               (case unitQuote of
                  Inl e \<Rightarrow> Fulfilled None
                | Inr u \<Rightarrow>
                    (case (if side = BUY
                           then Inr (map (\<lambda>amount. getBuyPricePath amount [pairParam]) amounts)
                           else mapE (\<lambda>amount. getSellPricePath amount [pairParam]) amounts) of
                       Inl e \<Rightarrow> Fulfilled None
                     | Inr ps \<Rightarrow>
                         Fulfilled (Some
                           [\<lparr>prices = ps, unit = u, gasCost = Number (poolGasCost this),
                             gasCostL2 = None, exchange = this_dexKey this,
                             poolIdentifier = Some poolIdentifier,
                             poolAddresses = Some [pairExchange pairParam],
                             data = BabydogeSwapData (thisRouter this)
                                      [toLowerCase (address from), toLowerCase (address to)]
                                      (factoryAddress this) feeFactor
                                      [\<lparr>poolAddress = pairExchange pairParam,
                                        poolFee = parseInt (fee pairParam),
                                        poolDirection = direction pairParam\<rparr>]\<rparr>])))))"

text \<open>
  The adapter as the coordinator sees it. \<^verbatim>\<open>getPoolIdentifiers\<close> has no \<^verbatim>\<open>await\<close>; the
  array of \<^verbatim>\<open>getPricesVolume\<close> is a literal, its quote a new object;
  \<^verbatim>\<open>getCalldataGasCost\<close> returns the constant \<^verbatim>\<open>CALLDATA_GAS_COST.DEX_OVERHEAD\<close>, a
  parameter here.
\<close>

definition BabydogeSwap_IDex :: "'n \<Rightarrow> 'n BabydogeSwap \<Rightarrow> 'n IDex" where
  "BabydogeSwap_IDex DEX_OVERHEAD this =
     \<lparr>hasConstantPriceLargeAmounts = False,
      isFeeOnTransferSupported = True,
      getPoolIdentifiers = (\<lambda>from_raw to_raw side blockNumber.
         Fulfilled (BabydogeSwap_getPoolIdentifiers this from_raw to_raw side blockNumber)),
      getPricesVolume = (\<lambda>from_raw to_raw amounts side blockNumber limitPools transferFees.
         map_settle (map_option fresh)
           (BabydogeSwap_getPricesVolume this from_raw to_raw amounts side blockNumber
              limitPools)),
      getCalldataGasCost = (\<lambda>poolPrices. Inr (Number DEX_OVERHEAD))\<rparr>"


section \<open>Concrete inputs\<close>

text \<open>
  A registry built from a list of adapters: \<^verbatim>\<open>getDexByKey\<close> throws an error whose message
  starts with \<^verbatim>\<open>Invalid Dex Key\<close> for a key it does not hold, as the \<^verbatim>\<open>catch\<close> of
  \<^verbatim>\<open>PricingHelper.getDexByKey\<close> expects.
\<close>

definition registry :: "(string \<times> 'n IDex) list \<Rightarrow> string \<Rightarrow> js_error + 'n IDex" where
  "registry dexes key =
     (case map_of dexes key of
        None \<Rightarrow> Inl (Error (Some (''Invalid Dex Key '' @ key)))
      | Some dexInstance \<Rightarrow> Inr dexInstance)"

text \<open>An adapter whose methods settle the same way for every request.\<close>

definition fixedDex ::
  "bool \<Rightarrow> bool \<Rightarrow> string list settle \<Rightarrow> 'n ExchangePrices option settle
   \<Rightarrow> js_error + 'n gas_cost \<Rightarrow> 'n IDex" where
  "fixedDex constantPrice feeOnTransfer ids pps l1 =
     \<lparr>hasConstantPriceLargeAmounts = constantPrice,
      isFeeOnTransferSupported = feeOnTransfer,
      getPoolIdentifiers = (\<lambda>srcToken destToken side blockNumber. ids),
      getPricesVolume = (\<lambda>srcToken destToken amounts side blockNumber limitPools transferFees. pps),
      getCalldataGasCost = (\<lambda>poolPrices. l1)\<rparr>"

text \<open>Gas costs with integer values, and a quote with given prices and gas cost.\<close>

definition scalarGas :: "int \<Rightarrow> js_number gas_cost" where
  "scalarGas n = Number (Int_number n)"

definition seqGas :: "int list \<Rightarrow> js_number gas_cost" where
  "seqGas ns = Array (map Int_number ns)"

definition exQuote :: "int list \<Rightarrow> js_number gas_cost \<Rightarrow> js_number PoolPrices" where
  "exQuote ps g =
     \<lparr>prices = ps, unit = 1, gasCost = g, gasCostL2 = None, exchange = ''Venue'',
      poolIdentifier = Some ''Venue_pool'', poolAddresses = None, data = Null_data\<rparr>"

definition tokenA :: Token where
  "tokenA = \<lparr>address = ''0xaa'', decimals = 18\<rparr>"

definition tokenB :: Token where
  "tokenB = \<lparr>address = ''0xbb'', decimals = 18\<rparr>"

definition noTransferFees :: TransferFeeParams where
  "noTransferFees = \<lparr>srcFee = 0, destFee = 0, srcDexFee = 0, destDexFee = 0\<rparr>"

text \<open>
  Three venues: \<open>Good\<close> quotes \<open>[0, 5]\<close> with gas \<open>[0, 7]\<close>, \<open>Bad\<close> rejects with the
  message \<open>boom\<close>, \<open>Slow\<close> does not settle before the deadline.
\<close>

definition threeVenues :: "string \<Rightarrow> js_error + js_number IDex" where
  "threeVenues =
     registry
       [(''Good'', fixedDex False True (Fulfilled [''Good_pool''])
                     (Fulfilled (Some (fresh [exQuote [0, 5] (seqGas [0, 7])])))
                     (Inr (seqGas [1, 1]))),
        (''Bad'', fixedDex False True (Rejected (Error (Some ''boom'')))
                    (Rejected (Error (Some ''boom''))) (Inr (scalarGas 1))),
        (''Slow'', fixedDex True True Pending Pending (Inr (scalarGas 1)))]"

text \<open>
  Two venues: \<open>Good\<close> as above, and \<open>Void\<close>, whose promises are rejected with
  \<^verbatim>\<open>undefined\<close>.
\<close>

definition voidVenues :: "string \<Rightarrow> js_error + js_number IDex" where
  "voidVenues =
     registry
       [(''Good'', fixedDex False True (Fulfilled [''Good_pool''])
                     (Fulfilled (Some (fresh [exQuote [0, 5] (seqGas [0, 7])])))
                     (Inr (seqGas [1, 1]))),
        (''Void'', fixedDex False True (Rejected Nullish) (Rejected Nullish)
                     (Inr (scalarGas 1)))]"

text \<open>
  Venues for the rollup overlay: \<open>Scalar\<close> has the gas cost \<open>100000\<close> and the calldata
  gas cost \<open>50000\<close>; \<open>Seq\<close> has the gas costs \<open>[0, 7]\<close> and the calldata gas costs
  \<open>[0, 10]\<close>; \<open>Mixed\<close> has a scalar gas cost and a sequence of calldata gas costs;
  \<open>Shared\<close> returns an array that holds one quote object twice, with the gas cost
  \<open>100000\<close> and the calldata gas cost \<open>50000\<close>.
\<close>

definition rollupVenues :: "string \<Rightarrow> js_error + js_number IDex" where
  "rollupVenues =
     registry
       [(''Scalar'', fixedDex False True (Fulfilled [])
                       (Fulfilled (Some (fresh [exQuote [0, 5] (scalarGas 100000)])))
                       (Inr (scalarGas 50000))),
        (''Seq'', fixedDex False True (Fulfilled [])
                    (Fulfilled (Some (fresh [exQuote [0, 5] (seqGas [0, 7])])))
                    (Inr (seqGas [0, 10]))),
        (''Mixed'', fixedDex False True (Fulfilled [])
                      (Fulfilled (Some (fresh [exQuote [0, 5] (scalarGas 100000)])))
                      (Inr (seqGas [0, 10]))),
        (''Shared'', fixedDex False True (Fulfilled [])
                       (Fulfilled (Some \<lparr>objects = (\<lambda>r. exQuote [0, 5] (scalarGas 100000)),
                                         elements = [0, 0]\<rparr>))
                       (Inr (scalarGas 50000)))]"

text \<open>
  A venue that quotes \<open>[5, 7]\<close> with a scalar gas cost, whatever the amounts are.
\<close>

definition carelessVenue :: "string \<Rightarrow> js_error + js_number IDex" where
  "carelessVenue =
     registry
       [(''Careless'', fixedDex False True (Fulfilled [])
                         (Fulfilled (Some (fresh [exQuote [5, 7] (scalarGas 1)])))
                         (Inr (scalarGas 1)))]"

text \<open>
  A BabydogeSwap instance on a pool with reserves \<open>(1000000, 2000000)\<close> and fee \<open>30\<close>,
  with no native token to wrap, and an SDai instance, each in a registry of its own.
\<close>

definition exBabydogeSwap :: "js_number BabydogeSwap" where
  "exBabydogeSwap =
     \<lparr>this_dexKey = ''BabyDogeSwap'', poolGasCost = Int_number 90000, thisRouter = ''0xc9a0'',
      factoryAddress = ''0x4693'', wrapETH = (\<lambda>token. token),
      pairOrderedParams = (\<lambda>from to blockNumber. Fulfilled (Some (pool 1000000 2000000 30)))\<rparr>"

definition babydogeVenue :: "string \<Rightarrow> js_error + js_number IDex" where
  "babydogeVenue = registry [(''BabyDogeSwap'', BabydogeSwap_IDex (Int_number 1) exBabydogeSwap)]"

definition exSDai :: SDai where
  "exSDai = new_SDai ''SDai'' ''0x83F2'' ''0x6B17''"

definition tokenDai :: Token where
  "tokenDai = \<lparr>address = ''0x6b17'', decimals = 18\<rparr>"

definition tokenSDai :: Token where
  "tokenSDai = \<lparr>address = ''0x83f2'', decimals = 18\<rparr>"


section \<open>Properties of the quote kernel\<close>

lemma BigInt_div_nonneg: "0 \<le> n \<Longrightarrow> 0 \<le> d \<Longrightarrow> BigInt_div n d = n div d"
  by (cases "n = 0"; cases "d = 0") (simp_all add: BigInt_div_def signed_divide_int_def sgn_if)

lemma feeComplement_exact:
  assumes "10000 - 2 ^ 53 < f" and "f < 2 ^ 53"
  shows "BigInt_of_number (number_sub (Int_number 10000) (parseInt f)) = Inr (10000 - f)"
proof -
  have "\<bar>f\<bar> < 2 ^ 53" using assms by simp
  then have p: "parseInt f = Int_number f"
    by (simp add: parseInt_def round_to_double_def)
  have "\<bar>10000 - f\<bar> < 2 ^ 53" using assms by simp
  then have "round_to_double (10000 - f) = Int_number (10000 - f)"
    by (simp add: round_to_double_def)
  then show ?thesis
    by (simp add: p number_sub_def number_neg_def number_add_def BigInt_of_number_def)
qed

lemma getSellPrice_unfold:
  assumes "10000 - 2 ^ 53 < f" and "f < 2 ^ 53"
  shows "getSellPrice (pool r_in r_out f) x =
     Inr (if r_in + x > 2 ^ 112 - 1 then 0
          else if r_in * 10000 + x * (10000 - f) = 0 then 0
          else BigInt_div (x * (10000 - f) * r_out) (r_in * 10000 + x * (10000 - f)))"
  using feeComplement_exact [OF assms]
  by (simp add: getSellPrice_def pool_def RESERVE_LIMIT_def feeFactor_def Let_def)

text \<open>
  Beyond that range the subtraction rounds: the fee \<open>2^53 + 1\<close> is read as the number
  \<open>2^53\<close>, and a fee of 400 digits as an infinity, for which \<^verbatim>\<open>BigInt\<close> throws.
\<close>

lemma getSellPrice_large_fee:
  "BigInt_of_number (number_sub (Int_number feeFactor) (parseInt (2 ^ 53 + 1)))
     = Inr (10000 - 2 ^ 53)"
  "getSellPrice (pool 1 1 (2 ^ 53 + 1)) 1 = Inr (BigInt_div (10000 - 2 ^ 53) (2 * 10000 - 2 ^ 53))"
  "getSellPrice (pool 1 1 (10 ^ 400)) 1 = Inl RangeError"
  by code_simp+

lemma getBuyPrice_unfold:
  "getBuyPrice (pool r_in r_out f) y =
     (if (10000 - f) * (r_out - y) \<le> 0 then 0
      else if r_in * y * 10000 = 0 then 0
      else 1 + BigInt_div (r_in * y * 10000) ((10000 - f) * (r_out - y)))"
  by (simp add: getBuyPrice_def pool_def feeFactor_def Let_def)

text \<open>
  Claim C3, as stated, at the input \<open>x = 1\<close>, \<open>r_in = 1\<close>, \<open>r_out = 1\<close>, \<open>f = 10001\<close>:
  the inputs are non-negative, the reserve limit is not exceeded and the denominator
  is \<open>9999\<close>, the numerator \<open>-1\<close>. The BigInt quotient is \<open>0\<close>, the floor is \<open>-1\<close>.
\<close>

theorem getSellPrice_floor_counterexample:
  "(0::int) \<le> 1 \<and> \<not> (1 + 1 > RESERVE_LIMIT) \<and> 1 * feeFactor + 1 * (feeFactor - 10001) \<noteq> 0
   \<and> getSellPrice (pool 1 1 10001) 1 = Inr 0
   \<and> (1 * (feeFactor - 10001) * 1) div (1 * feeFactor + 1 * (feeFactor - 10001)) = - 1
   \<and> getSellPrice (pool 1 1 10001) 1 \<noteq> Inr (getAmountOut_spec 1 1 1 10001)"
  by (simp add: getSellPrice_unfold getAmountOut_spec_def RESERVE_LIMIT_def feeFactor_def
      BigInt_div_def signed_divide_int_def)

text \<open>
  Claim C3, amended: for \<open>x \<ge> 0\<close>, \<open>r_in \<ge> 0\<close>, \<open>r_out \<ge> 0\<close> and every fee \<open>f\<close> with
  \<open>F - 2^53 < f < 2^53\<close> (the fees for which \<^verbatim>\<open>this.feeFactor - parseInt(fee)\<close> is exact in
  the arithmetic of numbers), the sell quote is \<open>0\<close> when \<open>r_in + x > 2^112 - 1\<close>;
  otherwise it is \<open>0\<close> when the denominator \<open>r_in * F + x * (F - f)\<close> is \<open>0\<close>, and
  otherwise the quotient of \<open>x * (F - f) * r_out\<close> by that denominator, truncated
  towards zero. For \<open>f \<le> F\<close> the truncated quotient is the floor, and the quote is the
  spec's \<open>getAmountOut\<close>.
\<close>

theorem getSellPrice_quote:
  assumes "0 \<le> x" and "0 \<le> r_in" and "0 \<le> r_out"
      and "feeFactor - 2 ^ 53 < f" and "f < 2 ^ 53"
  shows "getSellPrice (pool r_in r_out f) x =
           Inr (if r_in + x > RESERVE_LIMIT then 0
                else if r_in * feeFactor + x * (feeFactor - f) = 0 then 0
                else BigInt_div (x * (feeFactor - f) * r_out)
                       (r_in * feeFactor + x * (feeFactor - f)))
         \<and> (f \<le> feeFactor \<longrightarrow>
              getSellPrice (pool r_in r_out f) x = Inr (getAmountOut_spec x r_in r_out f))"
proof (intro conjI impI)
  have range: "10000 - 2 ^ 53 < f" "f < 2 ^ 53" using assms(4,5) by (simp_all add: feeFactor_def)
  show "getSellPrice (pool r_in r_out f) x =
           Inr (if r_in + x > RESERVE_LIMIT then 0
                else if r_in * feeFactor + x * (feeFactor - f) = 0 then 0
                else BigInt_div (x * (feeFactor - f) * r_out)
                       (r_in * feeFactor + x * (feeFactor - f)))"
    by (simp add: getSellPrice_unfold [OF range] RESERVE_LIMIT_def feeFactor_def)
  assume "f \<le> feeFactor"
  then have g: "0 \<le> 10000 - f" by (simp add: feeFactor_def)
  have num: "0 \<le> x * (10000 - f) * r_out" using assms(1-3) g by simp
  have den: "0 \<le> r_in * 10000 + x * (10000 - f)" using assms(1-3) g by simp
  show "getSellPrice (pool r_in r_out f) x = Inr (getAmountOut_spec x r_in r_out f)"
    unfolding getSellPrice_unfold [OF range] getAmountOut_spec_def
    by (simp only: BigInt_div_nonneg [OF num den])
qed

text \<open>
  Witness for C3: the pool with reserves \<open>(1000000, 2000000)\<close> and fee \<open>30\<close>, selling
  \<open>1000\<close>; the quote is \<open>1992\<close>.
\<close>

theorem getSellPrice_quote_witness:
  "(0::int) \<le> 1000 \<and> (0::int) \<le> 1000000 \<and> (0::int) \<le> 2000000 \<and> (30::int) \<le> feeFactor
   \<and> feeFactor - 2 ^ 53 < 30 \<and> (30::int) < 2 ^ 53
   \<and> getSellPrice (pool 1000000 2000000 30) 1000 = Inr 1992
   \<and> getAmountOut_spec 1000 1000000 2000000 30 = 1992"
  using getSellPrice_quote [of 1000 1000000 2000000 30]
  by (simp add: getAmountOut_spec_def feeFactor_def RESERVE_LIMIT_def BigInt_div_def
      signed_divide_int_def)

text \<open>
  Claim C4, as stated, at the input \<open>y = -1\<close>, \<open>r_in = 1\<close>, \<open>r_out = 1\<close>, \<open>f = 0\<close>: the
  denominator is \<open>20000\<close> and the numerator \<open>-10000\<close>, so neither is the denominator
  \<open>\<le> 0\<close> nor the numerator \<open>0\<close>. The BigInt quotient is \<open>0\<close> and the buy quote \<open>1\<close>;
  the floor is \<open>-1\<close> and the claimed value \<open>0\<close>.
\<close>

theorem getBuyPrice_floor_counterexample:
  "\<not> ((feeFactor - 0) * (1 - (- 1)) \<le> 0) \<and> 1 * (- 1) * feeFactor \<noteq> 0
   \<and> getBuyPrice (pool 1 1 0) (- 1) = 1
   \<and> 1 + (1 * (- 1) * feeFactor) div ((feeFactor - 0) * (1 - (- 1))) = 0
   \<and> getBuyPrice (pool 1 1 0) (- 1) \<noteq> getAmountIn_spec (- 1) 1 1 0"
  by (simp add: getBuyPrice_unfold getAmountIn_spec_def feeFactor_def
      BigInt_div_def signed_divide_int_def)

text \<open>
  Claim C4, amended: for all \<open>y\<close>, \<open>r_in\<close>, \<open>r_out\<close> and \<open>f\<close>, the buy quote is \<open>0\<close> when the
  denominator \<open>(F - f) * (r_out - y)\<close> is \<open>\<le> 0\<close> or the numerator \<open>r_in * y * F\<close> is \<open>0\<close>,
  and otherwise \<open>1\<close> plus the quotient of the numerator by the denominator, truncated
  towards zero. When \<open>r_in * y \<ge> 0\<close> (no negative reserve or amount) the truncated
  quotient is the floor, and the quote is the spec's \<open>getAmountIn\<close>.
\<close>

theorem getBuyPrice_quote:
  "getBuyPrice (pool r_in r_out f) y =
     (if (feeFactor - f) * (r_out - y) \<le> 0 \<or> r_in * y * feeFactor = 0 then 0
      else 1 + BigInt_div (r_in * y * feeFactor) ((feeFactor - f) * (r_out - y)))
   \<and> (0 \<le> r_in * y \<longrightarrow> getBuyPrice (pool r_in r_out f) y = getAmountIn_spec y r_in r_out f)"
proof (intro conjI impI)
  show "getBuyPrice (pool r_in r_out f) y =
     (if (feeFactor - f) * (r_out - y) \<le> 0 \<or> r_in * y * feeFactor = 0 then 0
      else 1 + BigInt_div (r_in * y * feeFactor) ((feeFactor - f) * (r_out - y)))"
    by (simp add: getBuyPrice_unfold feeFactor_def)
next
  assume nn: "0 \<le> r_in * y"
  then have num: "0 \<le> r_in * y * 10000" by simp
  show "getBuyPrice (pool r_in r_out f) y = getAmountIn_spec y r_in r_out f"
  proof (cases "(10000 - f) * (r_out - y) \<le> 0")
    case True
    then show ?thesis by (simp add: getBuyPrice_unfold getAmountIn_spec_def)
  next
    case False
    then have den: "0 \<le> (10000 - f) * (r_out - y)" by simp
    show ?thesis
      unfolding getBuyPrice_unfold getAmountIn_spec_def
      by (simp only: BigInt_div_nonneg [OF num den]) simp
  qed
qed

text \<open>
  Witness for C4: the pool with reserves \<open>(1000000, 2000000)\<close> and fee \<open>30\<close>, buying
  \<open>1992\<close>; the quote is \<open>1000\<close>.
\<close>

theorem getBuyPrice_quote_witness:
  "(0::int) \<le> 1000000 * 1992
   \<and> getBuyPrice (pool 1000000 2000000 30) 1992 = 1000
   \<and> getAmountIn_spec 1992 1000000 2000000 30 = 1000"
  using getBuyPrice_quote [of 1000000 2000000 30 1992]
  by (simp add: getAmountIn_spec_def)

text \<open>
  Claim C5, as stated, at the input \<open>x = 4\<close>, \<open>r0 = 2000000\<close>, \<open>r1 = 1000000\<close>, \<open>f = 30\<close>:
  the reserves are positive, the fee is in \<open>[0, F)\<close>, \<open>x > 0\<close> and \<open>x + r0\<close> is within the
  reserve limit. Selling \<open>4\<close> is quoted \<open>1\<close>, and buying \<open>1\<close> is quoted \<open>3\<close>, less than \<open>4\<close>.
\<close>

theorem roundtrip_counterexample:
  "(0::int) < 2000000 \<and> (0::int) < 1000000 \<and> (0::int) \<le> 30 \<and> 30 < feeFactor \<and> (0::int) < 4
   \<and> 4 + 2000000 \<le> RESERVE_LIMIT
   \<and> getSellPrice (pool 2000000 1000000 30) 4 = Inr 1
   \<and> getBuyPrice (pool 2000000 1000000 30) 1 = 3
   \<and> \<not> (getBuyPrice (pool 2000000 1000000 30) 1 \<ge> 4)"
  by (simp add: getSellPrice_unfold getBuyPrice_unfold feeFactor_def RESERVE_LIMIT_def
      BigInt_div_def signed_divide_int_def)

text \<open>
  Claim C5, amended: for reserves \<open>r0 \<ge> 0\<close>, \<open>r1 \<ge> 0\<close>, a fee \<open>f\<close> in \<open>[0, F)\<close> and \<open>x > 0\<close>,
  the input quoted for buying what selling \<open>x\<close> is quoted,
  \<open>getAmountIn(getAmountOut(x, r0, r1, f), r0, r1, f)\<close>, is at most \<open>x + 1\<close>. (The sell
  quote rounds down, so the amount to buy it back can be less than \<open>x\<close>, and it is \<open>0\<close>
  when the sell quote is \<open>0\<close>.)
\<close>

theorem roundtrip_upper:
  assumes x: "0 < x" and r0: "0 \<le> r0" and r1: "0 \<le> r1" and f0: "0 \<le> f" and fF: "f < feeFactor"
  shows "\<exists>out. getSellPrice (pool r0 r1 f) x = Inr out
               \<and> getBuyPrice (pool r0 r1 f) out \<le> x + 1"
proof -
  define g where "g = 10000 - f"
  have g: "0 < g" using fF by (simp add: g_def feeFactor_def)
  have range: "10000 - 2 ^ 53 < f" "f < 2 ^ 53" using f0 fF by (simp_all add: feeFactor_def)
  note sell = getSellPrice_unfold [OF range]
  define den where "den = r0 * 10000 + x * g"
  define num where "num = x * g * r1"
  define out where "out = (if r0 + x > 2 ^ 112 - 1 then 0
          else if r0 * 10000 + x * (10000 - f) = 0 then 0
          else BigInt_div (x * (10000 - f) * r1) (r0 * 10000 + x * (10000 - f)))"
  have sell_out: "getSellPrice (pool r0 r1 f) x = Inr out"
    by (simp only: sell out_def)
  have den_pos: "0 < den"
  proof -
    have "0 < x * g" using x g by simp
    moreover have "0 \<le> r0 * 10000" using r0 by simp
    ultimately show ?thesis unfolding den_def by linarith
  qed
  have num_nn: "0 \<le> num" using x g r1 by (simp add: num_def)
  have out_cases: "out = 0 \<or> out = num div den"
    unfolding out_def
    using den_pos num_nn BigInt_div_nonneg [of num den]
    by (auto simp: g_def den_def num_def)
  have out_nn: "0 \<le> out"
    using out_cases num_nn den_pos by (auto simp: pos_imp_zdiv_nonneg_iff)
  have out_le: "out * den \<le> num"
  proof -
    from out_cases show ?thesis
    proof
      assume "out = 0" then show ?thesis using num_nn by simp
    next
      assume eq: "out = num div den"
      have "num div den * den + num mod den = num" by simp
      moreover have "0 \<le> num mod den" using den_pos by simp
      ultimately have "num div den * den \<le> num" by linarith
      then show ?thesis by (simp only: eq)
    qed
  qed
  define n' where "n' = r0 * out * 10000"
  define d' where "d' = g * (r1 - out)"
  have key: "n' \<le> x * d'"
  proof -
    have "out * den = n' + x * g * out"
      by (simp add: den_def n'_def algebra_simps)
    moreover have "x * d' = num - x * g * out"
      by (simp add: d'_def num_def algebra_simps)
    ultimately show ?thesis using out_le by linarith
  qed
  have n'_nn: "0 \<le> n'" using r0 out_nn by (simp add: n'_def)
  show ?thesis
  proof (cases "d' \<le> 0 \<or> n' = 0")
    case True
    then have "getBuyPrice (pool r0 r1 f) out = 0"
      unfolding getBuyPrice_unfold by (auto simp: d'_def n'_def g_def)
    then show ?thesis using x sell_out by simp
  next
    case False
    then have d'_pos: "0 < d'" and "n' \<noteq> 0" by auto
    have "getBuyPrice (pool r0 r1 f) out = 1 + BigInt_div n' d'"
      unfolding getBuyPrice_unfold using False by (auto simp: d'_def n'_def g_def)
    also have "BigInt_div n' d' = n' div d'"
      using n'_nn d'_pos by (simp add: BigInt_div_nonneg)
    also have "n' div d' \<le> x"
    proof -
      have "n' div d' \<le> (x * d') div d'" using key d'_pos by (rule zdiv_mono1)
      then show ?thesis using d'_pos by simp
    qed
    finally show ?thesis using sell_out by simp
  qed
qed

text \<open>
  Witness for C5: reserves \<open>(1000000, 2000000)\<close>, fee \<open>30\<close>, \<open>x = 1000\<close>: the sell quote is
  \<open>1992\<close> and buying \<open>1992\<close> is quoted \<open>1000\<close>.
\<close>

theorem roundtrip_upper_witness:
  "(0::int) < 1000 \<and> (0::int) \<le> 1000000 \<and> (0::int) \<le> 2000000 \<and> (0::int) \<le> 30 \<and> 30 < feeFactor
   \<and> (\<exists>out. getSellPrice (pool 1000000 2000000 30) 1000 = Inr out
          \<and> getBuyPrice (pool 1000000 2000000 30) out \<le> 1000 + 1)"
  using roundtrip_upper [of 1000 1000000 2000000 30]
  by (simp add: feeFactor_def)

section \<open>Properties of the pricing coordinator\<close>

lemma rollupVenues_at:
  "rollupVenues ''Scalar'' = Inr (fixedDex False True (Fulfilled [])
                       (Fulfilled (Some (fresh [exQuote [0, 5] (scalarGas 100000)])))
                       (Inr (scalarGas 50000)))"
  "rollupVenues ''Seq'' = Inr (fixedDex False True (Fulfilled [])
                    (Fulfilled (Some (fresh [exQuote [0, 5] (seqGas [0, 7])])))
                    (Inr (seqGas [0, 10])))"
  "rollupVenues ''Mixed'' = Inr (fixedDex False True (Fulfilled [])
                      (Fulfilled (Some (fresh [exQuote [0, 5] (scalarGas 100000)])))
                      (Inr (seqGas [0, 10])))"
  "rollupVenues ''Shared'' = Inr (fixedDex False True (Fulfilled [])
                       (Fulfilled (Some \<lparr>objects = (\<lambda>r. exQuote [0, 5] (scalarGas 100000)),
                                         elements = [0, 0]\<rparr>))
                       (Inr (scalarGas 50000)))"
  by (simp_all add: rollupVenues_def registry_def)

lemma fixedDex_sel:
  "hasConstantPriceLargeAmounts (fixedDex c f ids pps l1) = c"
  "isFeeOnTransferSupported (fixedDex c f ids pps l1) = f"
  "getPoolIdentifiers (fixedDex c f ids pps l1) a b s n = ids"
  "getPricesVolume (fixedDex c f ids pps l1) a b am s n lp tf = pps"
  "getCalldataGasCost (fixedDex c f ids pps l1) q = l1"
  by (simp_all add: fixedDex_def)

lemma threeVenues_at:
  "threeVenues ''Good'' = Inr (fixedDex False True (Fulfilled [''Good_pool''])
                     (Fulfilled (Some (fresh [exQuote [0, 5] (seqGas [0, 7])])))
                     (Inr (seqGas [1, 1])))"
  "threeVenues ''Bad'' = Inr (fixedDex False True (Rejected (Error (Some ''boom'')))
                    (Rejected (Error (Some ''boom''))) (Inr (scalarGas 1)))"
  "threeVenues ''Slow'' = Inr (fixedDex True True Pending Pending (Inr (scalarGas 1)))"
  "threeVenues ''Nope'' = Inl (Error (Some ''Invalid Dex Key Nope''))"
  by (simp_all add: threeVenues_def registry_def)

lemma voidVenues_at:
  "voidVenues ''Good'' = Inr (fixedDex False True (Fulfilled [''Good_pool''])
                     (Fulfilled (Some (fresh [exQuote [0, 5] (seqGas [0, 7])])))
                     (Inr (seqGas [1, 1])))"
  "voidVenues ''Void'' = Inr (fixedDex False True (Rejected Nullish) (Rejected Nullish)
                     (Inr (scalarGas 1)))"
  by (simp_all add: voidVenues_def registry_def)

lemma quotesOf_fresh: "quotesOf (fresh qs) = qs"
  by (simp add: quotesOf_def fresh_def map_nth)


lemma list_ex_enumerate:
  "list_ex (\<lambda>(i, x). P i x) (enumerate n xs) \<longleftrightarrow> (\<exists>i < length xs. P (n + i) (xs ! i))"
proof (induction xs arbitrary: n)
  case Nil
  then show ?case by simp
next
  case (Cons x xs)
  have "(\<exists>i < Suc (length xs). P (n + i) ((x # xs) ! i))
        \<longleftrightarrow> P n x \<or> (\<exists>i < length xs. P (Suc n + i) (xs ! i))"
    by (auto simp: less_Suc_eq_0_disj)
  with Cons.IH [of "Suc n"] show ?case by simp
qed

lemma isValidPoolPrice_iff:
  "isValidPoolPrice J amounts p =
     (case pricesOrNull p of None \<Rightarrow> True | Some q \<Rightarrow> keepsQuote_spec J amounts q)"
proof (cases "pricesOrNull p")
  case None
  then show ?thesis by (simp add: isValidPoolPrice_def)
next
  case (Some q)
  show ?thesis
  proof (cases "gasCost q")
    case (Number g)
    with Some show ?thesis
      by (auto simp: isValidPoolPrice_def keepsQuote_spec_def list_all_iff)
  next
    case (Array gs)
    with Some show ?thesis
      by (auto simp: isValidPoolPrice_def keepsQuote_spec_def list_all_iff
          list_ex_enumerate [where n = 0, simplified])
  qed
qed

lemma mapE_some_Inl: "x \<in> set xs \<Longrightarrow> f x = Inl e \<Longrightarrow> \<exists>e'. mapE f xs = Inl e'"
proof (induction xs)
  case Nil
  then show ?case by simp
next
  case (Cons y ys)
  show ?case
  proof (cases "f y")
    case (Inl e0)
    then show ?thesis by simp
  next
    case (Inr v)
    with Cons.prems have "x \<in> set ys" by auto
    then obtain e' where "mapE f ys = Inl e'" using Cons.IH Cons.prems(2) by blast
    then show ?thesis using Inr by simp
  qed
qed

lemma mapE_all_Inr:
  assumes "\<And>x. x \<in> set xs \<Longrightarrow> \<exists>y. f x = Inr y"
  shows "\<exists>ys. mapE f xs = Inr ys \<and> map Inr ys = map f xs"
  using assms
proof (induction xs)
  case Nil
  then show ?case by simp
next
  case (Cons x xs)
  then obtain ys where ys: "mapE f xs = Inr ys" "map Inr ys = map f xs" by auto
  from Cons.prems obtain y where y: "f x = Inr y" by auto
  show ?case using ys y by simp
qed

lemma Promise_all_Inr:
  assumes "\<And>x. x \<in> set xs \<Longrightarrow> \<exists>c. f x = Inr c"
  shows "\<exists>cs. Promise_all (map f xs) = Inr cs \<and> map Inr cs = map f xs"
proof -
  have "\<exists>cs. mapE (\<lambda>p. p) (map f xs) = Inr cs \<and> map Inr cs = map (\<lambda>p. p) (map f xs)"
    by (rule mapE_all_Inr) (use assms in auto)
  then show ?thesis by (simp add: Promise_all_def)
qed

text \<open>
  Claim C1. The final pass of \<^verbatim>\<open>getPoolPrices\<close> is a filter, so what it keeps it keeps
  unchanged. It keeps an envelope exactly when its \<^verbatim>\<open>prices\<close> is null, or its quote
  has as many prices as there are amounts, has, when \<^verbatim>\<open>gasCost\<close> is an array, as many
  gas costs as there are amounts and a gas cost \<open>0\<close> at every index whose amount is
  \<open>0\<close>, and has a price that is not \<open>0\<close>.
\<close>

theorem validation_pass_keeps:
  "PricingHelper_getPoolPrices J getDexByKey from to amounts side blockNumber dexKeys
       limitPoolsMap transferFees ratio
     = (case Promise_all (map (poolPricesOfKey J getDexByKey from to amounts side blockNumber
                                 limitPoolsMap transferFees ratio) dexKeys) of
          Inl e \<Rightarrow> Inl e
        | Inr dexPoolPrices \<Rightarrow>
            Inr (filter (\<lambda>p. pricesOrNull p = None
                              \<or> (\<exists>q. pricesOrNull p = Some q \<and> keepsQuote_spec J amounts q))
                   (concat dexPoolPrices)))
   \<and> (isValidPoolPrice J amounts p \<longleftrightarrow>
        pricesOrNull p = None \<or> (\<exists>q. pricesOrNull p = Some q \<and> keepsQuote_spec J amounts q))"
proof (intro conjI)
  have iff: "isValidPoolPrice J amounts p' \<longleftrightarrow>
        pricesOrNull p' = None \<or> (\<exists>q. pricesOrNull p' = Some q \<and> keepsQuote_spec J amounts q)"
    for p' :: "'a ImprovedPoolPrice"
    by (cases "pricesOrNull p'") (simp_all add: isValidPoolPrice_iff)
  have feq: "filter (isValidPoolPrice J amounts) ps
        = filter (\<lambda>p. pricesOrNull p = None
                \<or> (\<exists>q. pricesOrNull p = Some q \<and> keepsQuote_spec J amounts q)) ps"
    for ps
    by (rule filter_cong) (simp_all add: iff)
  show "PricingHelper_getPoolPrices J getDexByKey from to amounts side blockNumber dexKeys
       limitPoolsMap transferFees ratio
     = (case Promise_all (map (poolPricesOfKey J getDexByKey from to amounts side blockNumber
                                 limitPoolsMap transferFees ratio) dexKeys) of
          Inl e \<Rightarrow> Inl e
        | Inr dexPoolPrices \<Rightarrow>
            Inr (filter (\<lambda>p. pricesOrNull p = None
                              \<or> (\<exists>q. pricesOrNull p = Some q \<and> keepsQuote_spec J amounts q))
                   (concat dexPoolPrices)))"
    by (simp only: PricingHelper_getPoolPrices_def feq)
  show "isValidPoolPrice J amounts p \<longleftrightarrow>
        pricesOrNull p = None \<or> (\<exists>q. pricesOrNull p = Some q \<and> keepsQuote_spec J amounts q)"
    by (rule iff)
qed

text \<open>
  Witness for C1, amounts \<open>[0, 10]\<close>: the quote with prices \<open>[0, 5]\<close> and gas \<open>[0, 7]\<close> is
  kept; the quote with gas \<open>[3, 7]\<close>, the one with prices \<open>[0, 0]\<close> and the one with the
  single price \<open>[5]\<close> are dropped; the envelope without a quote is kept.
\<close>

theorem validation_pass_keeps_witness:
  "isValidPoolPrice double_ops [0, 10]
      \<lparr>dexKey = ''Venue'', poolId = [], pricesOrNull = Some (exQuote [0, 5] (seqGas [0, 7]))\<rparr>
   \<and> keepsQuote_spec double_ops [0, 10] (exQuote [0, 5] (seqGas [0, 7]))
   \<and> \<not> keepsQuote_spec double_ops [0, 10] (exQuote [0, 5] (seqGas [3, 7]))
   \<and> \<not> keepsQuote_spec double_ops [0, 10] (exQuote [0, 0] (seqGas [0, 7]))
   \<and> \<not> keepsQuote_spec double_ops [0, 10] (exQuote [5] (scalarGas 7))
   \<and> filter (isValidPoolPrice double_ops [0, 10])
       [\<lparr>dexKey = ''Venue'', poolId = ''Timeout'', pricesOrNull = None\<rparr>,
        \<lparr>dexKey = ''Venue'', poolId = [], pricesOrNull = Some (exQuote [0, 5] (seqGas [0, 7]))\<rparr>,
        \<lparr>dexKey = ''Venue'', poolId = [], pricesOrNull = Some (exQuote [0, 5] (seqGas [3, 7]))\<rparr>,
        \<lparr>dexKey = ''Venue'', poolId = [], pricesOrNull = Some (exQuote [0, 0] (seqGas [0, 7]))\<rparr>,
        \<lparr>dexKey = ''Venue'', poolId = [], pricesOrNull = Some (exQuote [5] (scalarGas 7))\<rparr>]
     = [\<lparr>dexKey = ''Venue'', poolId = ''Timeout'', pricesOrNull = None\<rparr>,
        \<lparr>dexKey = ''Venue'', poolId = [], pricesOrNull = Some (exQuote [0, 5] (seqGas [0, 7]))\<rparr>]"
  using validation_pass_keeps [of double_ops threeVenues tokenA tokenB "[0, 10]" SELL 1 "[]" None
      noTransferFees None
      "\<lparr>dexKey = ''Venue'', poolId = [], pricesOrNull = Some (exQuote [0, 5] (seqGas [0, 7]))\<rparr>"]
  by (simp add: isValidPoolPrice_def exQuote_def double_ops_def keepsQuote_spec_def
      seqGas_def scalarGas_def All_less_Suc numeral_2_eq_2)

text \<open>
  Where the isolation of a venue holds: a rejection of the promise of a key with a
  value that is not \<^verbatim>\<open>undefined\<close> or \<^verbatim>\<open>null\<close> becomes one envelope with null prices, which
  the validation pass keeps. This covers a throw of the registry, a rejection or throw
  of the adapter's \<^verbatim>\<open>getPricesVolume\<close> and the expiry of \<^verbatim>\<open>FETCH_POOL_PRICES_TIMEOUT\<close>.
\<close>

lemma poolPricesOfKey_error_envelope:
  assumes "limitPools = (case limitPoolsMap of None \<Rightarrow> None | Some m \<Rightarrow> m key)"
      and "limitPools \<noteq> Some []"
      and "fetchPoolPrices J getDexByKey from to amounts side blockNumber limitPools transferFees
             ratio key = Inl (Error m)"
  shows "poolPricesOfKey J getDexByKey from to amounts side blockNumber limitPoolsMap transferFees
           ratio key
         = Inr [\<lparr>dexKey = key,
                 poolId = (case m of Some s \<Rightarrow> s | None \<Rightarrow> ''Error_getPoolPrices''),
                 pricesOrNull = None\<rparr>]"
  using assms by (simp add: poolPricesOfKey_def Let_def)

lemma fetchPoolPrices_adapter_failure:
  assumes "getDexByKey key = Inl e
           \<or> (\<exists>dexInstance. getDexByKey key = Inr dexInstance
                \<and> \<not> (isSrcTokenTransferFeeToBeExchanged transferFees
                      \<and> \<not> isFeeOnTransferSupported dexInstance)
                \<and> (getPricesVolume dexInstance from to amounts side blockNumber limitPools
                      transferFees = Rejected e
                    \<or> getPricesVolume dexInstance from to amounts side blockNumber limitPools
                        transferFees = Pending \<and> e = Timeout))"
  shows "fetchPoolPrices J getDexByKey from to amounts side blockNumber limitPools transferFees
           ratio key = Inl e"
  using assms by (auto simp: fetchPoolPrices_def)

lemma error_envelope_kept:
  "filter (isValidPoolPrice J amounts) [\<lparr>dexKey = key, poolId = msg, pricesOrNull = None\<rparr>]
   = [\<lparr>dexKey = key, poolId = msg, pricesOrNull = None\<rparr>]"
  by (simp add: isValidPoolPrice_def)

text \<open>
  Claim C2, at the failing input: the venues \<open>Good\<close> and \<open>Void\<close>, where \<open>Void\<close> rejects
  its \<^verbatim>\<open>getPricesVolume\<close> promise with \<^verbatim>\<open>undefined\<close>. The \<^verbatim>\<open>catch\<close> for \<open>Void\<close> reads
  \<^verbatim>\<open>e.message\<close> and throws a \<^verbatim>\<open>TypeError\<close>, \<^verbatim>\<open>Promise.all\<close> is rejected with it, and so is
  \<^verbatim>\<open>getPoolPrices\<close>: the quote of \<open>Good\<close> is lost and \<open>Void\<close> contributes no envelope.
  \<^verbatim>\<open>getPoolIdentifiers\<close>, whose \<^verbatim>\<open>catch\<close> does not read the error, is fulfilled for the
  same venues, with the empty list for \<open>Void\<close>.
\<close>

theorem getPoolPrices_nullish_rejection:
  "poolPricesOfKey double_ops voidVenues tokenA tokenB [0, 10] SELL 1 None noTransferFees None
     ''Void'' = Inl TypeError
   \<and> PricingHelper_getPoolPrices double_ops voidVenues tokenA tokenB [0, 10] SELL 1
        [''Good'', ''Void''] None noTransferFees None
     = Inl TypeError
   \<and> PricingHelper_getPoolPrices double_ops voidVenues tokenA tokenB [0, 10] SELL 1
        [''Good''] None noTransferFees None
     = Inr [\<lparr>dexKey = ''Good'', poolId = ''Venue_pool'',
              pricesOrNull = Some (exQuote [0, 5] (seqGas [0, 7]))\<rparr>]
   \<and> (\<exists>m. PricingHelper_getPoolIdentifiers voidVenues tokenA tokenB SELL 1
              [''Good'', ''Void''] False = Inr m
          \<and> m ''Good'' = Some (Some [''Good_pool''])
          \<and> m ''Void'' = Some (Some []))"
proof -
  have void: "poolPricesOfKey double_ops voidVenues tokenA tokenB [0, 10] SELL n None
                noTransferFees None ''Void'' = Inl TypeError" for n
    by (simp add: poolPricesOfKey_def fetchPoolPrices_def voidVenues_at fixedDex_sel
        isSrcTokenTransferFeeToBeExchanged_def noTransferFees_def)
  have good: "poolPricesOfKey double_ops voidVenues tokenA tokenB [0, 10] SELL n None
                noTransferFees None ''Good''
              = Inr [\<lparr>dexKey = ''Good'', poolId = ''Venue_pool'',
                      pricesOrNull = Some (exQuote [0, 5] (seqGas [0, 7]))\<rparr>]" for n
    by (simp add: poolPricesOfKey_def fetchPoolPrices_def voidVenues_at fixedDex_sel
        isSrcTokenTransferFeeToBeExchanged_def noTransferFees_def toImprovedPoolPrices_def
        quotesOf_fresh exQuote_def)
  have both: "PricingHelper_getPoolPrices double_ops voidVenues tokenA tokenB [0, 10] SELL 1
        [''Good'', ''Void''] None noTransferFees None = Inl TypeError"
    by (simp add: PricingHelper_getPoolPrices_def Promise_all_def void good)
  have one: "PricingHelper_getPoolPrices double_ops voidVenues tokenA tokenB [0, 10] SELL 1
        [''Good''] None noTransferFees None
     = Inr [\<lparr>dexKey = ''Good'', poolId = ''Venue_pool'',
              pricesOrNull = Some (exQuote [0, 5] (seqGas [0, 7]))\<rparr>]"
    unfolding PricingHelper_getPoolPrices_def Promise_all_def
    by (simp add: good) (simp add: isValidPoolPrice_def exQuote_def seqGas_def double_ops_def)
  have ids: "\<exists>m. PricingHelper_getPoolIdentifiers voidVenues tokenA tokenB SELL 1
              [''Good'', ''Void''] False = Inr m
          \<and> m ''Good'' = Some (Some [''Good_pool''])
          \<and> m ''Void'' = Some (Some [])"
    by (simp add: PricingHelper_getPoolIdentifiers_def Promise_all_def poolIdentifiersOfKey_def
        fetchPoolIdentifiers_def voidVenues_at fixedDex_sel)
  from void [of 1] both one ids show ?thesis by (intro conjI)
qed

lemma poolIdentifiersOfKey_Inr:
  "\<exists>c. poolIdentifiersOfKey getDexByKey from to side blockNumber flt key = Inr c"
  by (simp add: poolIdentifiersOfKey_def split: sum.splits)

lemma fold_enumerate_update:
  assumes "\<And>i. i < length ks \<Longrightarrow> xs ! (n + i) = g (ks ! i)"
  shows "fold (\<lambda>(index, dexKey) acc. acc(dexKey \<mapsto> xs ! index)) (enumerate n ks) acc
         = (\<lambda>k. if k \<in> set ks then Some (g k) else acc k)"
  using assms
proof (induction ks arbitrary: n acc)
  case Nil
  then show ?case by simp
next
  case (Cons k ks)
  have hd: "xs ! n = g k" using Cons.prems [of 0] by simp
  have tl: "\<And>i. i < length ks \<Longrightarrow> xs ! (Suc n + i) = g (ks ! i)"
    using Cons.prems [of "Suc i" for i] by simp
  have "fold (\<lambda>(index, dexKey) acc. acc(dexKey \<mapsto> xs ! index)) (enumerate n (k # ks)) acc
        = fold (\<lambda>(index, dexKey) acc. acc(dexKey \<mapsto> xs ! index)) (enumerate (Suc n) ks)
            (acc(k \<mapsto> xs ! n))"
    by simp
  also have "\<dots> = (\<lambda>k'. if k' \<in> set ks then Some (g k') else (acc(k \<mapsto> xs ! n)) k')"
    by (rule Cons.IH [OF tl])
  also have "\<dots> = (\<lambda>k'. if k' \<in> set (k # ks) then Some (g k') else acc k')"
    by (auto simp: hd fun_eq_iff)
  finally show ?case .
qed

lemma getPoolIdentifiers_entries:
  assumes g: "\<And>key. poolIdentifiersOfKey getDexByKey from to side blockNumber flt key = Inr (g key)"
  shows "PricingHelper_getPoolIdentifiers getDexByKey from to side blockNumber dexKeys flt
         = Inr (\<lambda>k. if k \<in> set dexKeys then Some (g k) else None)"
proof -
  have pa: "Promise_all (map (poolIdentifiersOfKey getDexByKey from to side blockNumber flt) dexKeys)
        = Inr (map g dexKeys)"
    unfolding Promise_all_def
    by (induction dexKeys) (simp_all add: g)
  show ?thesis
    unfolding PricingHelper_getPoolIdentifiers_def pa
    by (simp add: fold_enumerate_update [where g = g])
qed


text \<open>
  Claim C8. \<^verbatim>\<open>getPoolIdentifiers\<close> is always fulfilled, with a mapping that has an entry
  for every key of \<open>dexKeys\<close>. The entry is \<^verbatim>\<open>null\<close> exactly when
  \<open>filterConstantPricePool\<close> is true and the key's adapter has
  \<open>hasConstantPriceLargeAmounts\<close>. Otherwise it is the empty list when the registry
  throws for the key or the adapter's call rejects or does not settle before
  \<^verbatim>\<open>FETCH_POOL_IDENTIFIER_TIMEOUT\<close>, and the adapter's list when the call is fulfilled.
\<close>

theorem getPoolIdentifiers_total:
  "\<exists>m. PricingHelper_getPoolIdentifiers getDexByKey from to side blockNumber dexKeys
          filterConstantPricePool = Inr m
      \<and> (\<forall>key \<in> set dexKeys.
            (\<exists>entry. m key = Some entry)
          \<and> (m key = Some None \<longleftrightarrow>
               filterConstantPricePool
               \<and> (\<exists>d. getDexByKey key = Inr d \<and> hasConstantPriceLargeAmounts d))
          \<and> (\<not> (filterConstantPricePool
                  \<and> (\<exists>d. getDexByKey key = Inr d \<and> hasConstantPriceLargeAmounts d))
               \<and> ((\<exists>e. getDexByKey key = Inl e)
                    \<or> (\<exists>d. getDexByKey key = Inr d
                          \<and> (getPoolIdentifiers d from to side blockNumber = Pending
                               \<or> (\<exists>e. getPoolIdentifiers d from to side blockNumber = Rejected e))))
               \<longrightarrow> m key = Some (Some []))
          \<and> (\<forall>d ids. getDexByKey key = Inr d
                 \<and> \<not> (filterConstantPricePool \<and> hasConstantPriceLargeAmounts d)
                 \<and> getPoolIdentifiers d from to side blockNumber = Fulfilled ids
               \<longrightarrow> m key = Some (Some ids)))"
proof -
  define g where "g key =
    (case fetchPoolIdentifiers getDexByKey from to side blockNumber filterConstantPricePool key of
       Inl e \<Rightarrow> Some [] | Inr v \<Rightarrow> v)" for key
  have w: "poolIdentifiersOfKey getDexByKey from to side blockNumber filterConstantPricePool key
           = Inr (g key)" for key
    by (simp add: poolIdentifiersOfKey_def g_def split: sum.splits)
  have m: "PricingHelper_getPoolIdentifiers getDexByKey from to side blockNumber dexKeys
          filterConstantPricePool = Inr (\<lambda>k. if k \<in> set dexKeys then Some (g k) else None)"
    by (rule getPoolIdentifiers_entries) (rule w)
  have null: "g key = None \<longleftrightarrow>
               filterConstantPricePool
               \<and> (\<exists>d. getDexByKey key = Inr d \<and> hasConstantPriceLargeAmounts d)" for key
    by (auto simp: g_def fetchPoolIdentifiers_def split: sum.splits settle.splits)
  have err: "g key = Some []"
    if "\<not> (filterConstantPricePool
            \<and> (\<exists>d. getDexByKey key = Inr d \<and> hasConstantPriceLargeAmounts d))"
       "(\<exists>e. getDexByKey key = Inl e)
         \<or> (\<exists>d. getDexByKey key = Inr d
               \<and> (getPoolIdentifiers d from to side blockNumber = Pending
                    \<or> (\<exists>e. getPoolIdentifiers d from to side blockNumber = Rejected e)))" for key
    using that by (auto simp: g_def fetchPoolIdentifiers_def split: sum.splits settle.splits)
  have ok: "g key = Some ids"
    if "getDexByKey key = Inr d" "\<not> (filterConstantPricePool \<and> hasConstantPriceLargeAmounts d)"
       "getPoolIdentifiers d from to side blockNumber = Fulfilled ids" for key d ids
    using that by (auto simp: g_def fetchPoolIdentifiers_def)
  let ?m = "\<lambda>k. if k \<in> set dexKeys then Some (g k) else None"
  have "(\<exists>entry. ?m key = Some entry)
      \<and> (?m key = Some None \<longleftrightarrow>
           filterConstantPricePool
           \<and> (\<exists>d. getDexByKey key = Inr d \<and> hasConstantPriceLargeAmounts d))
      \<and> (\<not> (filterConstantPricePool
              \<and> (\<exists>d. getDexByKey key = Inr d \<and> hasConstantPriceLargeAmounts d))
           \<and> ((\<exists>e. getDexByKey key = Inl e)
                \<or> (\<exists>d. getDexByKey key = Inr d
                      \<and> (getPoolIdentifiers d from to side blockNumber = Pending
                           \<or> (\<exists>e. getPoolIdentifiers d from to side blockNumber = Rejected e))))
           \<longrightarrow> ?m key = Some (Some []))
      \<and> (\<forall>d ids. getDexByKey key = Inr d
             \<and> \<not> (filterConstantPricePool \<and> hasConstantPriceLargeAmounts d)
             \<and> getPoolIdentifiers d from to side blockNumber = Fulfilled ids
           \<longrightarrow> ?m key = Some (Some ids))"
    if "key \<in> set dexKeys" for key
  proof (intro conjI impI allI)
    show "\<exists>entry. ?m key = Some entry" using that by simp
    show "?m key = Some None \<longleftrightarrow>
           filterConstantPricePool
           \<and> (\<exists>d. getDexByKey key = Inr d \<and> hasConstantPriceLargeAmounts d)"
      using that null [of key] by simp
    show "?m key = Some (Some [])"
      if "\<not> (filterConstantPricePool
              \<and> (\<exists>d. getDexByKey key = Inr d \<and> hasConstantPriceLargeAmounts d))
           \<and> ((\<exists>e. getDexByKey key = Inl e)
                \<or> (\<exists>d. getDexByKey key = Inr d
                      \<and> (getPoolIdentifiers d from to side blockNumber = Pending
                           \<or> (\<exists>e. getPoolIdentifiers d from to side blockNumber = Rejected e))))"
      using that \<open>key \<in> set dexKeys\<close> err [of key] by simp
    show "?m key = Some (Some ids)"
      if "getDexByKey key = Inr d
             \<and> \<not> (filterConstantPricePool \<and> hasConstantPriceLargeAmounts d)
             \<and> getPoolIdentifiers d from to side blockNumber = Fulfilled ids" for d ids
      using that \<open>key \<in> set dexKeys\<close> ok [of key d ids] by simp
  qed
  then show ?thesis using m by blast
qed



text \<open>
  Witness for C8: the keys \<open>Good\<close>, \<open>Bad\<close>, \<open>Slow\<close> and the unknown key \<open>Nope\<close>, with
  \<open>filterConstantPricePool\<close> true. \<open>Good\<close> gives its identifier, \<open>Bad\<close> rejects and
  \<open>Nope\<close> is not registered (empty lists), \<open>Slow\<close> has constant prices (\<^verbatim>\<open>null\<close>).
\<close>

theorem getPoolIdentifiers_total_witness:
  "\<exists>m. PricingHelper_getPoolIdentifiers threeVenues tokenA tokenB SELL 1
          [''Good'', ''Bad'', ''Slow'', ''Nope''] True = Inr m
      \<and> m ''Good'' = Some (Some [''Good_pool''])
      \<and> m ''Bad'' = Some (Some [])
      \<and> m ''Slow'' = Some None
      \<and> m ''Nope'' = Some (Some [])"
  using getPoolIdentifiers_total [of threeVenues tokenA tokenB SELL 1
      "[''Good'', ''Bad'', ''Slow'', ''Nope'']" True]
proof (elim exE conjE, goal_cases)
  case (1 m)
  note ent = 1(2) [rule_format]
  have "m ''Good'' = Some (Some [''Good_pool''])"
    using ent [of "''Good''"] by (simp add: threeVenues_at fixedDex_sel)
  moreover have "m ''Bad'' = Some (Some [])"
    using ent [of "''Bad''"] by (simp add: threeVenues_at fixedDex_sel)
  moreover have "m ''Slow'' = Some None"
    using ent [of "''Slow''"] by (simp add: threeVenues_at fixedDex_sel)
  moreover have "m ''Nope'' = Some (Some [])"
    using ent [of "''Nope''"] by (simp add: threeVenues_at)
  ultimately show ?case using 1(1) by simp
qed














text \<open>
  The overlay is assigned into the quote objects. The venue \<open>Shared\<close> returns an array
  that holds one object twice, with the gas cost \<open>100000\<close>; with the ratio \<open>2\<close> and the
  calldata gas cost \<open>50000\<close> the object is overlaid twice, and both envelopes hold it with
  the gas cost \<open>300000\<close> and with \<^verbatim>\<open>gasCostL2\<close> \<open>200000\<close>, which is not the original gas cost.
\<close>

lemma rollup_shared_quote_example:
  "PricingHelper_getPoolPrices double_ops rollupVenues tokenA tokenB [0, 10] SELL 1 [''Shared'']
       None noTransferFees (Some (Int_number 2))
     = Inr [\<lparr>dexKey = ''Shared'', poolId = ''Venue_pool'',
              pricesOrNull = Some ((exQuote [0, 5] (scalarGas 300000))
                                      \<lparr>gasCostL2 := Some (scalarGas 200000)\<rparr>)\<rparr>,
            \<lparr>dexKey = ''Shared'', poolId = ''Venue_pool'',
              pricesOrNull = Some ((exQuote [0, 5] (scalarGas 300000))
                                      \<lparr>gasCostL2 := Some (scalarGas 200000)\<rparr>)\<rparr>]"
  by (simp add: PricingHelper_getPoolPrices_def Promise_all_def poolPricesOfKey_def
      fetchPoolPrices_def rollupVenues_at fixedDex_sel toImprovedPoolPrices_def quotesOf_def
      isSrcTokenTransferFeeToBeExchanged_def noTransferFees_def rollupImprovedPrices_def
      applyRollupGas_def exQuote_def scalarGas_def isValidPoolPrice_def double_ops_def
      number_add_def number_mul_def round_to_double_def)



section \<open>Properties of the adapters\<close>

lemma toLowerCase_examples:
  "toLowerCase ''0x83F2'' = ''0x83f2''" "toLowerCase ''0x6B17'' = ''0x6b17''"
  "toLowerCase ''0x83f2'' = ''0x83f2''" "toLowerCase ''0x6b17'' = ''0x6b17''"
  "toLowerCase ''0xaa'' = ''0xaa''" "toLowerCase ''0xbb'' = ''0xbb''"
  by code_simp+

lemma isAppropriatePair_iff:
  "isAppropriatePair this srcToken destToken \<longleftrightarrow>
     (toLowerCase (address srcToken) = toLowerCase (daiAddress this)
        \<and> toLowerCase (address destToken) = toLowerCase (sdaiAddress this))
     \<or> (toLowerCase (address destToken) = toLowerCase (daiAddress this)
        \<and> toLowerCase (address srcToken) = toLowerCase (sdaiAddress this))"
  by (auto simp: isAppropriatePair_def isDai_def isSDai_def)

text \<open>
  Claim C10. For an SDai instance built by the constructor with its defaults,
  \<^verbatim>\<open>getPricesVolume\<close> returns \<^verbatim>\<open>null\<close> unless one token's address equals the configured
  \<^verbatim>\<open>daiAddress\<close> and the other's the configured \<^verbatim>\<open>sdaiAddress\<close>, in either order and
  compared after \<^verbatim>\<open>toLowerCase\<close>. Otherwise, for every side, amounts list, block and
  \<^verbatim>\<open>limitPools\<close>, it returns exactly one quote: its prices are the amounts themselves,
  its unit is \<open>10^18\<close>, its gas cost is the scalar \<^verbatim>\<open>SDAI_GAS_COST\<close> and it has no
  \<^verbatim>\<open>poolIdentifier\<close>, so that its envelope carries the \<^verbatim>\<open>poolId\<close> \<open>""\<close>.
\<close>

theorem SDai_getPricesVolume_quote:
  "SDai_getPricesVolume SDAI_GAS_COST (new_SDai key configSdaiAddress configDaiAddress)
       srcToken destToken amounts side blockNumber limitPools
     = (if (toLowerCase (address srcToken) = toLowerCase configDaiAddress
              \<and> toLowerCase (address destToken) = toLowerCase configSdaiAddress)
           \<or> (toLowerCase (address destToken) = toLowerCase configDaiAddress
              \<and> toLowerCase (address srcToken) = toLowerCase configSdaiAddress)
        then Some [\<lparr>prices = amounts, unit = 10 ^ 18, gasCost = Number SDAI_GAS_COST,
                    gasCostL2 = None, exchange = key, poolIdentifier = None,
                    poolAddresses = Some [configSdaiAddress], data = Null_data\<rparr>]
        else None)
   \<and> (\<forall>q. SDai_getPricesVolume SDAI_GAS_COST (new_SDai key configSdaiAddress configDaiAddress)
              srcToken destToken amounts side blockNumber limitPools = Some [q]
          \<longrightarrow> toImprovedPoolPrices key (Some [q])
              = [\<lparr>dexKey = key, poolId = [], pricesOrNull = Some q\<rparr>])"
  by (auto simp: SDai_getPricesVolume_def isAppropriatePair_iff new_SDai_def BI_POWS_def
      toImprovedPoolPrices_def split: if_splits)


text \<open>
  Witness for C10: the configured addresses \<open>0x83F2\<close> (sDAI) and \<open>0x6B17\<close> (DAI), the
  tokens with the addresses \<open>0x6b17\<close> and \<open>0x83f2\<close>, in both orders and for both sides,
  and the pair of DAI with another token.
\<close>

theorem SDai_getPricesVolume_quote_witness:
  "SDai_getPricesVolume (Int_number 1) exSDai tokenDai tokenSDai [0, 10] SELL 1 None
     = Some [\<lparr>prices = [0, 10], unit = 10 ^ 18, gasCost = Number (Int_number 1), gasCostL2 = None,
              exchange = ''SDai'', poolIdentifier = None, poolAddresses = Some [''0x83F2''],
              data = Null_data\<rparr>]
   \<and> SDai_getPricesVolume (Int_number 1) exSDai tokenSDai tokenDai [0, 10] BUY 1 None
     = Some [\<lparr>prices = [0, 10], unit = 10 ^ 18, gasCost = Number (Int_number 1), gasCostL2 = None,
              exchange = ''SDai'', poolIdentifier = None, poolAddresses = Some [''0x83F2''],
              data = Null_data\<rparr>]
   \<and> SDai_getPricesVolume (Int_number 1) exSDai tokenDai tokenA [0, 10] SELL 1 None = None
   \<and> toImprovedPoolPrices ''SDai''
        (SDai_getPricesVolume (Int_number 1) exSDai tokenDai tokenSDai [0, 10] SELL 1 None)
     = [\<lparr>dexKey = ''SDai'', poolId = [],
          pricesOrNull = Some \<lparr>prices = [0, 10], unit = 10 ^ 18, gasCost = Number (Int_number 1),
              gasCostL2 = None, exchange = ''SDai'', poolIdentifier = None,
              poolAddresses = Some [''0x83F2''], data = Null_data\<rparr>\<rparr>]"
  using SDai_getPricesVolume_quote [of "Int_number 1" "''SDai''" "''0x83F2''" "''0x6B17''" tokenDai
      tokenSDai "[0, 10]" SELL 1 None]
    SDai_getPricesVolume_quote [of "Int_number 1" "''SDai''" "''0x83F2''" "''0x6B17''" tokenSDai
      tokenDai "[0, 10]" BUY 1 None]
    SDai_getPricesVolume_quote [of "Int_number 1" "''SDai''" "''0x83F2''" "''0x6B17''" tokenDai
      tokenA "[0, 10]" SELL 1 None]
  by (simp add: exSDai_def tokenDai_def tokenSDai_def tokenA_def toLowerCase_examples)

lemma getSellPrice_zero: "getSellPrice priceParams 0 = Inr v \<Longrightarrow> v = 0"
  by (auto simp: getSellPrice_def BigInt_div_def Let_def split: if_splits sum.splits)

lemma getSellPricePath_zero: "getSellPricePath 0 [priceParams] = Inr v \<Longrightarrow> v = 0"
  by (auto simp: getSellPrice_zero split: sum.splits)

lemma mapE_Inr_nth:
  "mapE f xs = Inr ys \<Longrightarrow> length ys = length xs \<and> (\<forall>i < length xs. f (xs ! i) = Inr (ys ! i))"
proof (induction xs arbitrary: ys)
  case Nil
  then show ?case by simp
next
  case (Cons x xs)
  from Cons.prems obtain y zs where y: "f x = Inr y" and zs: "mapE f xs = Inr zs"
    and ys: "ys = y # zs"
    by (cases "f x"; cases "mapE f xs") auto
  from Cons.IH [OF zs] y ys show ?case by (auto simp: nth_Cons split: nat.splits)
qed

lemma getBuyPrice_zero: "getBuyPrice priceParams 0 = 0"
  by (simp add: getBuyPrice_def Let_def)

lemma BabydogeSwap_prices_zero:
  assumes "BabydogeSwap_getPricesVolume this from_raw to_raw amounts side blockNumber limitPools
           = Fulfilled (Some qs)"
      and "q \<in> set qs"
  shows "length (prices q) = length amounts
         \<and> (\<forall>i < length amounts. amounts ! i = 0 \<longrightarrow> prices q ! i = 0)"
proof -
  from assms have "\<exists>pairParam ps. prices q = ps
      \<and> (if side = BUY
          then Inr (map (\<lambda>amount. getBuyPricePath amount [pairParam]) amounts)
          else mapE (\<lambda>amount. getSellPricePath amount [pairParam]) amounts) = Inr ps"
    unfolding BabydogeSwap_getPricesVolume_def Let_def
    by (auto split: if_splits settle.splits option.splits sum.splits)
  then obtain pairParam ps where
    q: "prices q = ps"
    and ps: "(if side = BUY
              then Inr (map (\<lambda>amount. getBuyPricePath amount [pairParam]) amounts)
              else mapE (\<lambda>amount. getSellPricePath amount [pairParam]) amounts) = Inr ps"
    by blast
  show ?thesis
  proof (cases "side = BUY")
    case True
    with ps have "ps = map (\<lambda>amount. getBuyPricePath amount [pairParam]) amounts" by simp
    with q show ?thesis by (simp add: getBuyPricePath_def getBuyPrice_zero)
  next
    case False
    with ps have m: "mapE (\<lambda>amount. getSellPricePath amount [pairParam]) amounts = Inr ps"
      by simp
    note n = mapE_Inr_nth [OF m]
    have "ps ! i = 0" if "i < length amounts" "amounts ! i = 0" for i
    proof -
      from n that have "getSellPricePath 0 [pairParam] = Inr (ps ! i)" by auto
      then show ?thesis by (rule getSellPricePath_zero)
    qed
    with n q show ?thesis by simp
  qed
qed

lemma SDai_prices_zero:
  assumes "SDai_getPricesVolume SDAI_GAS_COST this srcToken destToken amounts side blockNumber
             limitPools = Some qs"
      and "q \<in> set qs"
  shows "length (prices q) = length amounts
         \<and> (\<forall>i < length amounts. amounts ! i = 0 \<longrightarrow> prices q ! i = 0)"
  using assms by (auto simp: SDai_getPricesVolume_def split: if_splits)


lemma Promise_all_map:
  "(\<And>x. x \<in> set xs \<Longrightarrow> f x = Inr (g x)) \<Longrightarrow> Promise_all (map f xs) = Inr (map g xs)"
  unfolding Promise_all_def by (induction xs) simp_all

lemma getPoolIdentifiers_entries_on:
  assumes g: "\<And>key. key \<in> set dexKeys \<Longrightarrow>
                poolIdentifiersOfKey getDexByKey from to side blockNumber flt key = Inr (g key)"
  shows "PricingHelper_getPoolIdentifiers getDexByKey from to side blockNumber dexKeys flt
         = Inr (\<lambda>k. if k \<in> set dexKeys then Some (g k) else None)"
proof -
  have pa: "Promise_all (map (poolIdentifiersOfKey getDexByKey from to side blockNumber flt) dexKeys)
        = Inr (map g dexKeys)"
    by (rule Promise_all_map) (rule g)
  show ?thesis
    unfolding PricingHelper_getPoolIdentifiers_def pa
    by (simp add: fold_enumerate_update [where g = g])
qed

lemma BabydogeSwap_IDex_sel:
  "hasConstantPriceLargeAmounts (BabydogeSwap_IDex ov this) = False"
  "isFeeOnTransferSupported (BabydogeSwap_IDex ov this) = True"
  "getPoolIdentifiers (BabydogeSwap_IDex ov this) a b s n
     = Fulfilled (BabydogeSwap_getPoolIdentifiers this a b s n)"
  "getPricesVolume (BabydogeSwap_IDex ov this) a b am s n lp tf
     = map_settle (map_option fresh) (BabydogeSwap_getPricesVolume this a b am s n lp)"
  "getCalldataGasCost (BabydogeSwap_IDex ov this) q = Inr (Number ov)"
  by (simp_all add: BabydogeSwap_IDex_def)

lemma same_token_prices_key:
  assumes dex: "getDexByKey k = Inr (BabydogeSwap_IDex ov this)"
      and same: "toLowerCase (address (wrapETH this from)) = toLowerCase (address (wrapETH this to))"
  shows "poolPricesOfKey J getDexByKey from to amounts side blockNumber limitPoolsMap transferFees
           ratio k
         = Inr (if (case limitPoolsMap of None \<Rightarrow> None | Some m \<Rightarrow> m k) = Some [] then []
                else [\<lparr>dexKey = k, poolId = [], pricesOrNull = None\<rparr>])"
proof -
  have pv: "BabydogeSwap_getPricesVolume this from to amounts side blockNumber lp = Fulfilled None"
    for lp
    using same by (simp add: BabydogeSwap_getPricesVolume_def Let_def)
  have "fetchPoolPrices J getDexByKey from to amounts side blockNumber lp transferFees ratio k
        = Inr [\<lparr>dexKey = k, poolId = [], pricesOrNull = None\<rparr>]" for lp
    by (cases ratio)
      (simp_all add: fetchPoolPrices_def dex BabydogeSwap_IDex_sel pv toImprovedPoolPrices_def
        rollupImprovedPrices_def Let_def)
  then show ?thesis by (simp add: poolPricesOfKey_def Let_def)
qed

lemma same_token_identifiers_key:
  assumes dex: "getDexByKey k = Inr (BabydogeSwap_IDex ov this)"
      and same: "toLowerCase (address (wrapETH this from)) = toLowerCase (address (wrapETH this to))"
  shows "poolIdentifiersOfKey getDexByKey from to side blockNumber flt k = Inr (Some [])"
  using same
  by (simp add: poolIdentifiersOfKey_def fetchPoolIdentifiers_def dex BabydogeSwap_IDex_sel
      BabydogeSwap_getPoolIdentifiers_def Let_def)

text \<open>
  Claim C9, amended. Let every key of \<open>dexKeys\<close> be registered with a BabydogeSwap
  adapter, and let \<open>from\<close> and \<open>to\<close> have the same lower-cased address after
  \<^verbatim>\<open>wrapETH\<close>. Then \<^verbatim>\<open>getPoolPrices\<close> returns, in the order of the keys, one envelope
  \<open>{dexKey: k, poolId: "", prices: null}\<close> for every key \<open>k\<close> (and nothing for a key
  whose \<^verbatim>\<open>limitPools\<close> is the empty list), and \<^verbatim>\<open>getPoolIdentifiers\<close> returns the mapping
  with the empty list under every key.
\<close>

theorem identity_pair:
  assumes reg: "\<And>k. k \<in> set dexKeys \<Longrightarrow>
            getDexByKey k = Inr (BabydogeSwap_IDex (overhead k) (inst k))
            \<and> toLowerCase (address (wrapETH (inst k) from))
              = toLowerCase (address (wrapETH (inst k) to))"
  shows "PricingHelper_getPoolPrices J getDexByKey from to amounts side blockNumber dexKeys
           limitPoolsMap transferFees ratio
         = Inr (concat (map (\<lambda>k. if (case limitPoolsMap of None \<Rightarrow> None | Some m \<Rightarrow> m k) = Some []
                                   then []
                                   else [\<lparr>dexKey = k, poolId = [], pricesOrNull = None\<rparr>])
                          dexKeys))
       \<and> PricingHelper_getPoolIdentifiers getDexByKey from to side blockNumber dexKeys
           filterConstantPricePool
         = Inr (\<lambda>k. if k \<in> set dexKeys then Some (Some []) else None)"
proof
  let ?g = "\<lambda>k. if (case limitPoolsMap of None \<Rightarrow> None | Some m \<Rightarrow> m k) = Some []
                 then []
                 else [\<lparr>dexKey = k, poolId = [], pricesOrNull = (None :: 'a PoolPrices option)\<rparr>]"
  have pa: "Promise_all (map (poolPricesOfKey J getDexByKey from to amounts side blockNumber
                               limitPoolsMap transferFees ratio) dexKeys)
            = Inr (map ?g dexKeys)"
  proof (rule Promise_all_map)
    fix k assume "k \<in> set dexKeys"
    from reg [OF this] show "poolPricesOfKey J getDexByKey from to amounts side blockNumber
                               limitPoolsMap transferFees ratio k = Inr (?g k)"
      by (elim conjE) (rule same_token_prices_key)
  qed
  have keep: "filter (isValidPoolPrice J amounts) (concat (map ?g dexKeys))
              = concat (map ?g dexKeys)"
    by (rule filter_True) (auto simp: isValidPoolPrice_def split: if_splits)
  show "PricingHelper_getPoolPrices J getDexByKey from to amounts side blockNumber dexKeys
           limitPoolsMap transferFees ratio = Inr (concat (map ?g dexKeys))"
    unfolding PricingHelper_getPoolPrices_def pa by (simp only: keep sum.case)
next
  show "PricingHelper_getPoolIdentifiers getDexByKey from to side blockNumber dexKeys
           filterConstantPricePool
         = Inr (\<lambda>k. if k \<in> set dexKeys then Some (Some []) else None)"
  proof (rule getPoolIdentifiers_entries_on)
    fix key assume "key \<in> set dexKeys"
    from reg [OF this] show "poolIdentifiersOfKey getDexByKey from to side blockNumber
              filterConstantPricePool key = Inr (Some [])"
      by (elim conjE) (rule same_token_identifiers_key)
  qed
qed


lemma babydogeVenue_at:
  "babydogeVenue ''BabyDogeSwap'' = Inr (BabydogeSwap_IDex (Int_number 1) exBabydogeSwap)"
  by (simp add: babydogeVenue_def registry_def)

lemma carelessVenue_at:
  "carelessVenue ''Careless'' = Inr (fixedDex False True (Fulfilled [])
                         (Fulfilled (Some (fresh [exQuote [5, 7] (scalarGas 1)])))
                         (Inr (scalarGas 1)))"
  by (simp add: carelessVenue_def registry_def)

lemma exBabydogeSwap_same: "wrapETH exBabydogeSwap token = token"
  by (simp add: exBabydogeSwap_def)

text \<open>
  Claim C9, as stated, for the one key \<open>BabyDogeSwap\<close> and \<open>from = to\<close>: the adapter
  returns \<^verbatim>\<open>null\<close>, \<^verbatim>\<open>toImprovedPoolPrices\<close> turns it into one envelope with null prices,
  and the validation pass keeps it. The result is not the empty list.
\<close>

theorem identity_pair_counterexample:
  "toLowerCase (address (wrapETH exBabydogeSwap tokenA))
     = toLowerCase (address (wrapETH exBabydogeSwap tokenA))
   \<and> PricingHelper_getPoolPrices double_ops babydogeVenue tokenA tokenA [0, 1000] SELL 1
        [''BabyDogeSwap''] None noTransferFees None
     = Inr [\<lparr>dexKey = ''BabyDogeSwap'', poolId = [], pricesOrNull = None\<rparr>]
   \<and> PricingHelper_getPoolPrices double_ops babydogeVenue tokenA tokenA [0, 1000] SELL 1
        [''BabyDogeSwap''] None noTransferFees None
     \<noteq> Inr []"
  by (simp add: PricingHelper_getPoolPrices_def Promise_all_def poolPricesOfKey_def
      fetchPoolPrices_def babydogeVenue_at BabydogeSwap_IDex_sel BabydogeSwap_getPricesVolume_def
      exBabydogeSwap_same toImprovedPoolPrices_def isValidPoolPrice_def)

text \<open>
  Witness for C9: the key \<open>BabyDogeSwap\<close> with \<open>from = to\<close>.
\<close>

theorem identity_pair_witness:
  "PricingHelper_getPoolPrices double_ops babydogeVenue tokenA tokenA [0, 1000] SELL 1
        [''BabyDogeSwap''] None noTransferFees None
     = Inr [\<lparr>dexKey = ''BabyDogeSwap'', poolId = [], pricesOrNull = None\<rparr>]
   \<and> (\<exists>m. PricingHelper_getPoolIdentifiers babydogeVenue tokenA tokenA SELL 1
              [''BabyDogeSwap''] False = Inr m
          \<and> m ''BabyDogeSwap'' = Some (Some []))"
proof -
  have reg: "babydogeVenue k = Inr (BabydogeSwap_IDex (Int_number 1) exBabydogeSwap)
            \<and> toLowerCase (address (wrapETH exBabydogeSwap tokenA))
              = toLowerCase (address (wrapETH exBabydogeSwap tokenA))"
    if "k \<in> set [''BabyDogeSwap'']" for k
    using that by (simp add: babydogeVenue_at)
  note T = identity_pair [where dexKeys = "[''BabyDogeSwap'']" and getDexByKey = babydogeVenue
      and overhead = "\<lambda>k. Int_number 1" and inst = "\<lambda>k. exBabydogeSwap" and ?from = tokenA and to = tokenA
      and J = double_ops and amounts = "[0, 1000]" and side = SELL and blockNumber = 1
      and limitPoolsMap = None and transferFees = noTransferFees and ratio = None
      and filterConstantPricePool = False, OF reg]
  from T show ?thesis by simp
qed

text \<open>
  Claim C7, as stated, for a venue that quotes \<open>[5, 7]\<close> with a scalar gas cost and the
  amounts \<open>[0, 10]\<close>: the quote is returned, its price at the index \<open>0\<close> is \<open>5\<close>.
\<close>

theorem zero_amount_counterexample:
  "PricingHelper_getPoolPrices double_ops carelessVenue tokenA tokenB [0, 10] SELL 1 [''Careless'']
       None noTransferFees None
     = Inr [\<lparr>dexKey = ''Careless'', poolId = ''Venue_pool'',
              pricesOrNull = Some (exQuote [5, 7] (scalarGas 1))\<rparr>]
   \<and> [0, 10 :: int] ! 0 = 0
   \<and> prices (exQuote [5, 7] (scalarGas 1)) ! 0 \<noteq> 0"
  by (simp add: PricingHelper_getPoolPrices_def Promise_all_def poolPricesOfKey_def
      fetchPoolPrices_def carelessVenue_at fixedDex_sel toImprovedPoolPrices_def quotesOf_fresh
      isSrcTokenTransferFeeToBeExchanged_def noTransferFees_def
      exQuote_def scalarGas_def isValidPoolPrice_def)

text \<open>
  Claim C7, amended. Every quote that \<^verbatim>\<open>getPoolPrices\<close> returns has as many prices as
  there are amounts and, when its gas cost is a sequence, the gas cost \<open>0\<close> at every
  index whose amount is \<open>0\<close>. That the price is \<open>0\<close> at such an index is not checked
  by the coordinator; it holds for every quote of the BabydogeSwap adapter, on both
  sides, and for every quote of the SDai adapter.
\<close>

theorem zero_amount_coherence:
  "(\<forall>r p q. PricingHelper_getPoolPrices J getDexByKey from to amounts side blockNumber dexKeys
               limitPoolsMap transferFees ratio = Inr r
             \<and> p \<in> set r \<and> pricesOrNull p = Some q
       \<longrightarrow> length (prices q) = length amounts
           \<and> (\<forall>gs. gasCost q = Array gs
                \<longrightarrow> (\<forall>i < length amounts. amounts ! i = 0 \<longrightarrow> num_is_zero J (gs ! i))))
   \<and> (\<forall>qs q. BabydogeSwap_getPricesVolume this from to amounts side blockNumber limitPools
               = Fulfilled (Some qs) \<and> q \<in> set qs
       \<longrightarrow> length (prices q) = length amounts
           \<and> (\<forall>i < length amounts. amounts ! i = 0 \<longrightarrow> prices q ! i = 0))
   \<and> (\<forall>qs q. SDai_getPricesVolume SDAI_GAS_COST sdai from to amounts side blockNumber limitPools
               = Some qs \<and> q \<in> set qs
       \<longrightarrow> length (prices q) = length amounts
           \<and> (\<forall>i < length amounts. amounts ! i = 0 \<longrightarrow> prices q ! i = 0))"
proof (intro conjI allI impI; (elim conjE)?)
  fix r p q
  assume r: "PricingHelper_getPoolPrices J getDexByKey from to amounts side blockNumber dexKeys
               limitPoolsMap transferFees ratio = Inr r"
    and p: "p \<in> set r" and q: "pricesOrNull p = Some q"
  from r p have "isValidPoolPrice J amounts p"
    by (auto simp: PricingHelper_getPoolPrices_def split: sum.splits)
  with q have k: "keepsQuote_spec J amounts q" by (simp add: isValidPoolPrice_iff)
  from k show "length (prices q) = length amounts" by (simp add: keepsQuote_spec_def)
  fix gs i
  assume "gasCost q = Array gs" "i < length amounts" "amounts ! i = 0"
  with k show "num_is_zero J (gs ! i)" by (simp add: keepsQuote_spec_def)
next
  fix qs q
  assume a: "BabydogeSwap_getPricesVolume this from to amounts side blockNumber limitPools
               = Fulfilled (Some qs)" "q \<in> set qs"
  from BabydogeSwap_prices_zero [OF a] show "length (prices q) = length amounts" by simp
  fix i assume "i < length amounts" "amounts ! i = 0"
  with BabydogeSwap_prices_zero [OF a] show "prices q ! i = 0" by simp
next
  fix qs q
  assume a: "SDai_getPricesVolume SDAI_GAS_COST sdai from to amounts side blockNumber limitPools
               = Some qs" "q \<in> set qs"
  from SDai_prices_zero [OF a] show "length (prices q) = length amounts" by simp
  fix i assume "i < length amounts" "amounts ! i = 0"
  with SDai_prices_zero [OF a] show "prices q ! i = 0" by simp
qed


lemma pool_sel:
  "pairExchange (pool r_in r_out f) = []" "fee (pool r_in r_out f) = f"
  "direction (pool r_in r_out f) = True"
  by (simp_all add: pool_def)

lemma sortedJoin_example: "sortedJoin ''0xaa'' ''0xbb'' = ''0xaa_0xbb''"
  by code_simp

lemma exBabydogeSwap_quote:
  "BabydogeSwap_getPricesVolume exBabydogeSwap tokenA tokenB [0, 1000] SELL n None
   = Fulfilled (Some
       [\<lparr>prices = [0, 1992], unit = 1999999, gasCost = Number (Int_number 90000), gasCostL2 = None,
         exchange = ''BabyDogeSwap'', poolIdentifier = Some ''BabyDogeSwap_0xaa_0xbb'',
         poolAddresses = Some [[]],
         data = BabydogeSwapData ''0xc9a0'' [''0xaa'', ''0xbb''] ''0x4693'' 10000
                  [\<lparr>poolAddress = [], poolFee = Int_number 30, poolDirection = True\<rparr>]\<rparr>])"
  by (simp add: BabydogeSwap_getPricesVolume_def exBabydogeSwap_def tokenA_def tokenB_def
      toLowerCase_examples sortedJoin_example getBigIntPow_def
      getSellPrice_unfold feeFactor_def pool_sel BigInt_div_def signed_divide_int_def
      parseInt_def round_to_double_def)

text \<open>
  Witness for C7: BabydogeSwap on the pool \<open>(1000000, 2000000)\<close> with fee \<open>30\<close>, selling
  the amounts \<open>[0, 1000]\<close>: the prices are \<open>[0, 1992]\<close>.
\<close>

theorem zero_amount_coherence_witness:
  "PricingHelper_getPoolPrices double_ops babydogeVenue tokenA tokenB [0, 1000] SELL 1
       [''BabyDogeSwap''] None noTransferFees None
     = Inr [\<lparr>dexKey = ''BabyDogeSwap'', poolId = ''BabyDogeSwap_0xaa_0xbb'',
              pricesOrNull = Some
       \<lparr>prices = [0, 1992], unit = 1999999, gasCost = Number (Int_number 90000), gasCostL2 = None,
         exchange = ''BabyDogeSwap'', poolIdentifier = Some ''BabyDogeSwap_0xaa_0xbb'',
         poolAddresses = Some [[]],
         data = BabydogeSwapData ''0xc9a0'' [''0xaa'', ''0xbb''] ''0x4693'' 10000
                  [\<lparr>poolAddress = [], poolFee = Int_number 30, poolDirection = True\<rparr>]\<rparr>\<rparr>]
   \<and> [0, 1000 :: int] ! 0 = 0
   \<and> prices \<lparr>prices = [0, 1992], unit = 1999999, gasCost = Number (Int_number 90000),
         gasCostL2 = None,
         exchange = ''BabyDogeSwap'', poolIdentifier = Some ''BabyDogeSwap_0xaa_0xbb'',
         poolAddresses = Some [[]],
         data = BabydogeSwapData ''0xc9a0'' [''0xaa'', ''0xbb''] ''0x4693'' 10000
                  [\<lparr>poolAddress = [], poolFee = Int_number 30, poolDirection = True\<rparr>]\<rparr> ! 0 = 0"
proof -
  let ?Q = "\<lparr>prices = [0, 1992], unit = 1999999, gasCost = Number (Int_number 90000),
         gasCostL2 = None,
         exchange = ''BabyDogeSwap'', poolIdentifier = Some ''BabyDogeSwap_0xaa_0xbb'',
         poolAddresses = Some [[]],
         data = BabydogeSwapData ''0xc9a0'' [''0xaa'', ''0xbb''] ''0x4693'' 10000
                  [\<lparr>poolAddress = [], poolFee = Int_number 30, poolDirection = True\<rparr>]\<rparr>"
  have eval: "PricingHelper_getPoolPrices double_ops babydogeVenue tokenA tokenB [0, 1000] SELL 1
       [''BabyDogeSwap''] None noTransferFees None
     = Inr [\<lparr>dexKey = ''BabyDogeSwap'', poolId = ''BabyDogeSwap_0xaa_0xbb'',
              pricesOrNull = Some ?Q\<rparr>]"
    by (simp add: PricingHelper_getPoolPrices_def Promise_all_def poolPricesOfKey_def
        fetchPoolPrices_def babydogeVenue_at BabydogeSwap_IDex_sel exBabydogeSwap_quote
        toImprovedPoolPrices_def quotesOf_fresh isValidPoolPrice_def)
  have hyp: "BabydogeSwap_getPricesVolume exBabydogeSwap tokenA tokenB [0, 1000] SELL 1 None
               = Fulfilled (Some [?Q]) \<and> ?Q \<in> set [?Q]"
    by (simp add: exBabydogeSwap_quote)
  note T = zero_amount_coherence [where J = double_ops and getDexByKey = babydogeVenue
      and ?from = tokenA and to = tokenB and amounts = "[0, 1000]" and side = SELL
      and blockNumber = 1 and dexKeys = "[''BabyDogeSwap'']" and limitPoolsMap = None
      and transferFees = noTransferFees and ratio = None and this = exBabydogeSwap
      and limitPools = None and SDAI_GAS_COST = "Int_number 1" and sdai = exSDai]
  have "\<forall>i < length [0, 1000 :: int]. [0, 1000 :: int] ! i = 0 \<longrightarrow> prices ?Q ! i = 0"
    using T [THEN conjunct2, THEN conjunct1, rule_format, OF hyp] by (rule conjunct2)
  then have "prices ?Q ! 0 = 0" by simp
  with eval show ?thesis by simp
qed

end
